theory Spec2Isabelle
  imports Complex_Main "HOL-Library.Product_Lexorder" "HOL-Library.Multiset"
begin

section \<open>The pharmacy database of \<open>app.py\<close>\<close>

text \<open>
  \<open>PharmacyInventorySystem\<close> keeps all of its state in three SQLite tables, created by
  \<open>create_tables\<close>: \<open>medicines\<close>, \<open>inventory\<close> and \<open>sales\<close>. A table is modelled as the list
  of its rows in insertion (rowid) order, a row as a record with one field per column. The
  fields are named after the aliases the queries of \<open>app.py\<close> use for the tables:
  \<open>m.name\<close> is \<open>m_name\<close>, \<open>i.quantity\<close> is \<open>i_quantity\<close>, \<open>s.sale_date\<close> is \<open>s_sale_date\<close>.

  Conventions of the model:
  \<^item> A Python \<open>int\<close> is an \<open>int\<close>. The driver binds an \<open>int\<close> as an SQLite \<open>INTEGER\<close>
    when it is within 64 bits and raises \<open>OverflowError\<close> otherwise; this is modelled
    for the quantities. The id arguments are row ids, which are within 64 bits, and
    \<open>low_stock_threshold\<close>, which no caller in \<open>app.py\<close> passes, is taken so too.
  \<^item> The column \<open>inventory.quantity\<close> is the one column \<open>app.py\<close> computes with in SQL.
    Its value is a number that SQLite holds as an \<open>INTEGER\<close> when it is within 64 bits
    and as a \<open>REAL\<close>, a double with an integer value, when it is not; \<open>i_quantity\<close> is
    that number. Python reads it as an \<open>int\<close> or a \<open>float\<close> and compares it exactly.
  \<^item> A \<open>REAL\<close> column and a Python \<open>float\<close> are a \<open>real\<close>; the rounding of prices and
    amounts is not modelled.
  \<^item> A calendar date is its day number, the proleptic Gregorian ordinal that Python's
    \<open>date.toordinal\<close> computes (day 1 is 0001-01-01). The database holds the text
    \<open>YYYY-MM-DD\<close> written by \<open>date.isoformat\<close>, and SQLite compares and sorts these texts
    as strings, which for four-digit years is the order of the day numbers. SQLite's date
    functions yield \<open>NULL\<close> beyond 9999-12-31. The clock and the stored dates are taken
    within the years 1 to 9998, where \<open>date('now')\<close> and \<open>date('now', '+30 days')\<close> are
    dates; the argument of \<open>get_expiring_medicines\<close> is any \<open>int\<close>, and \<open>NULL\<close> is
    modelled there.
  \<^item> A time of day (\<open>sale_time\<close>, the text \<open>HH:MM:SS\<close>) is its number of seconds since
    midnight, for which the same holds.
  \<^item> SQLite enforces the \<open>FOREIGN KEY\<close> clauses of \<open>create_tables\<close> only on a connection
    whose \<open>PRAGMA foreign_keys\<close> is on. It is off unless the library was built otherwise,
    and no statement of \<open>app.py\<close> sets it. The setting is the field \<open>foreign_keys\<close> of the
    state, which no operation changes.
\<close>

type_synonym date = int

record medicines_row =
  m_id :: int
  m_name :: string
  m_generic_name :: "string option"
  m_type :: "string option"
  m_power :: "string option"
  m_company :: "string option"
  m_price :: "string option"

record inventory_row =
  i_id :: int
  i_medicine_id :: int
  i_quantity :: int
  i_expiry_date :: date
  i_purchase_price :: real
  i_selling_price :: real
  i_purchase_date :: date

record sales_row =
  s_id :: int
  s_inventory_id :: int
  s_quantity :: int
  s_sale_price :: real
  s_customer_name :: string
  s_sale_date :: date
  s_sale_time :: nat
  s_total_amount :: real

record db =
  foreign_keys :: bool
  medicines :: "medicines_row list"
  inventory :: "inventory_row list"
  sales :: "sales_row list"

text \<open>
  The three columns \<open>id INTEGER PRIMARY KEY\<close> are never given a value by an \<open>INSERT\<close> of
  \<open>app.py\<close>, so SQLite assigns the rowid: one more than the largest rowid of the table,
  and 1 in an empty table. \<open>cursor.lastrowid\<close> is that value.
\<close>

definition next_rowid :: "int list \<Rightarrow> int" where
  "next_rowid ids = (case ids of [] \<Rightarrow> 1 | x # xs \<Rightarrow> foldl max x xs + 1)"

subsection \<open>SQLite arithmetic\<close>

text \<open>The range of an SQLite \<open>INTEGER\<close>, and of the \<open>int\<close>s the driver binds.\<close>

definition int64 :: "int \<Rightarrow> bool" where
  "int64 n = (- 9223372036854775808 \<le> n \<and> n \<le> 9223372036854775807)"

text \<open>
  The conversion of an integer to a double: the nearest number with 53 significant bits,
  the even one of two that are equally near. (No integer of this program comes near the
  largest double.)
\<close>

fun bit_length :: "nat \<Rightarrow> nat" where
  "bit_length n = (if n = 0 then 0 else Suc (bit_length (n div 2)))"

declare bit_length.simps [simp del]

definition to_double :: "int \<Rightarrow> int" where
  "to_double n =
     (let a = nat \<bar>n\<bar>; e = bit_length a in
      if e \<le> 53 then n
      else
        (let u = 2 ^ (e - 53); m = a div u; r = a mod u;
             m' = (if u < 2 * r \<or> (2 * r = u \<and> odd m) then m + 1 else m)
         in sgn n * int (m' * u)))"

text \<open>
  \<open>quantity - ?\<close> in the \<open>UPDATE\<close> of \<open>sell_medicine\<close>. SQLite subtracts two \<open>INTEGER\<close>s as
  64-bit integers. When the difference does not fit, or when the quantity is a \<open>REAL\<close>,
  it converts both operands to doubles and subtracts those; the rounded difference is
  stored, as an \<open>INTEGER\<close> again when it is an integer strictly within the 64-bit range
  (the column has \<open>INTEGER\<close> affinity) and as a \<open>REAL\<close> otherwise.
\<close>

definition sqlite_minus :: "int \<Rightarrow> int \<Rightarrow> int" where
  "sqlite_minus a b =
     (if int64 a \<and> int64 b \<and> int64 (a - b) then a - b
      else to_double (to_double a - to_double b))"

subsection \<open>The calendar\<close>

text \<open>
  The helpers of Python's \<open>datetime\<close> module behind \<open>date.toordinal\<close>:
  \<open>_is_leap\<close>, \<open>_days_in_month\<close>, \<open>_days_before_year\<close>, \<open>_days_before_month\<close> and
  \<open>_ymd2ord\<close>.
\<close>

definition is_leap :: "nat \<Rightarrow> bool" where
  "is_leap year = (year mod 4 = 0 \<and> (year mod 100 \<noteq> 0 \<or> year mod 400 = 0))"

definition days_in_month :: "nat \<Rightarrow> nat \<Rightarrow> nat" where
  "days_in_month year month =
     (if month = 2 \<and> is_leap year then 29
      else [0, 31, 28, 31, 30, 31, 30, 31, 31, 30, 31, 30, 31] ! month)"

definition days_before_year :: "nat \<Rightarrow> nat" where
  "days_before_year year =
     (let y = year - 1 in y * 365 + y div 4 - y div 100 + y div 400)"

definition days_before_month :: "nat \<Rightarrow> nat \<Rightarrow> nat" where
  "days_before_month year month =
     [0, 0, 31, 59, 90, 120, 151, 181, 212, 243, 273, 304, 334] ! month
       + (if month > 2 \<and> is_leap year then 1 else 0)"

definition ymd2ord :: "nat \<Rightarrow> nat \<Rightarrow> nat \<Rightarrow> date" where
  "ymd2ord year month day =
     int (days_before_year year + days_before_month year month + day)"

text \<open>
  The clock. SQLite's \<open>'now'\<close> and \<open>CURRENT_DATE\<close> are the current instant in UTC: its
  calendar date and the milliseconds elapsed since 00:00 of that date. Python's
  \<open>datetime.now().strftime('%H:%M:%S')\<close> is the local time of day.
\<close>

record clock =
  utc_year :: nat
  utc_month :: nat
  utc_day :: nat
  utc_ms :: nat
  local_time :: nat

definition today :: "clock \<Rightarrow> date" where
  "today clk = ymd2ord (utc_year clk) (utc_month clk) (utc_day clk)"

definition start_of_month :: "clock \<Rightarrow> date" where
  "start_of_month clk = ymd2ord (utc_year clk) (utc_month clk) 1"

subsection \<open>\<open>datetime.strptime(expiry_date, '%Y-%m-%d').date()\<close>\<close>

text \<open>
  \<open>strptime\<close> turns the format into the regular expression
  \<open>(\d\d\d\d)-(1[0-2]|0[1-9]|[1-9])-(3[0-1]|[1-2]\d|0[1-9]|[1-9]| [1-9])\<close>, matches it at
  the start of the string and raises \<open>ValueError\<close> when it does not match or when text
  remains after the match. No alternative of the month contains \<open>-\<close>, so the month is the
  text between the two dashes; the day is the whole rest. The date is then built from the
  three numbers, and \<open>ValueError\<close> is raised for the year 0 and for a day the month does not
  have. \<open>None\<close> stands for \<open>ValueError\<close>.
\<close>

definition is_digit :: "char \<Rightarrow> bool" where
  "is_digit c = (c \<in> set ''0123456789'')"

definition digit_val :: "char \<Rightarrow> nat" where
  "digit_val c = of_char c - 48"

definition match_Y :: "string \<Rightarrow> nat option" where
  "match_Y t =
     (case t of
        [a, b, c, d] \<Rightarrow>
          if is_digit a \<and> is_digit b \<and> is_digit c \<and> is_digit d
          then Some (1000 * digit_val a + 100 * digit_val b + 10 * digit_val c + digit_val d)
          else None
      | _ \<Rightarrow> None)"

definition match_m :: "string \<Rightarrow> nat option" where
  "match_m t =
     (case t of
        [a] \<Rightarrow> if a \<in> set ''123456789'' then Some (digit_val a) else None
      | [a, b] \<Rightarrow>
          if a = CHR ''1'' \<and> b \<in> set ''012'' then Some (10 + digit_val b)
          else if a = CHR ''0'' \<and> b \<in> set ''123456789'' then Some (digit_val b)
          else None
      | _ \<Rightarrow> None)"

definition match_d :: "string \<Rightarrow> nat option" where
  "match_d t =
     (case t of
        [a] \<Rightarrow> if a \<in> set ''123456789'' then Some (digit_val a) else None
      | [a, b] \<Rightarrow>
          if a = CHR ''3'' \<and> b \<in> set ''01'' then Some (30 + digit_val b)
          else if a \<in> set ''12'' \<and> is_digit b then Some (10 * digit_val a + digit_val b)
          else if a \<in> set ''0 '' \<and> b \<in> set ''123456789'' then Some (digit_val b)
          else None
      | _ \<Rightarrow> None)"

definition strptime :: "string \<Rightarrow> date option" where
  "strptime data_string =
     (case match_Y (take 4 data_string) of
        None \<Rightarrow> None
      | Some year \<Rightarrow>
          (case drop 4 data_string of
             [] \<Rightarrow> None
           | sep # rest \<Rightarrow>
               if sep \<noteq> CHR ''-'' then None
               else
                 (case (match_m (takeWhile (\<lambda>c. c \<noteq> CHR ''-'') rest),
                        dropWhile (\<lambda>c. c \<noteq> CHR ''-'') rest) of
                    (Some month, _ # day_text) \<Rightarrow>
                      (case match_d day_text of
                         None \<Rightarrow> None
                       | Some day \<Rightarrow>
                           if 1 \<le> year \<and> day \<le> days_in_month year month
                           then Some (ymd2ord year month day)
                           else None)
                  | _ \<Rightarrow> None)))"

subsection \<open>\<open>load_medicine_data\<close>\<close>

text \<open>
  The JSON file is a list of objects; an object is a dictionary from keys to strings or
  \<open>null\<close> (\<open>None\<close>). \<open>med['name']\<close> raises \<open>KeyError\<close> when the key is missing;
  \<open>med.get(k)\<close> is \<open>None\<close> then.

  \<open>INSERT OR IGNORE\<close> skips a row that violates a constraint of the table. The table
  \<open>medicines\<close> of \<open>create_tables\<close> has two: \<open>id INTEGER PRIMARY KEY\<close>, which the assigned
  rowid never violates, and \<open>name TEXT NOT NULL\<close>. There is no \<open>UNIQUE\<close> constraint on
  \<open>name\<close>.
\<close>

datatype py_error = KeyError | ValueError | OverflowError | IntegrityError

type_synonym json_object = "(string \<times> string option) list"

definition dict_get :: "json_object \<Rightarrow> string \<Rightarrow> string option" where
  "dict_get med k = (case map_of med k of None \<Rightarrow> None | Some v \<Rightarrow> v)"

definition insert_or_ignore_medicine ::
  "medicines_row list \<Rightarrow> string option \<Rightarrow> json_object \<Rightarrow> medicines_row list" where
  "insert_or_ignore_medicine rows name_value med =
     (case name_value of
        None \<Rightarrow> rows
      | Some n \<Rightarrow>
          rows @ [\<lparr>m_id = next_rowid (map m_id rows), m_name = n,
                    m_generic_name = dict_get med ''generic_name'',
                    m_type = dict_get med ''type'',
                    m_power = dict_get med ''power'',
                    m_company = dict_get med ''company'',
                    m_price = dict_get med ''price''\<rparr>])"

fun insert_medicines ::
  "json_object list \<Rightarrow> medicines_row list \<Rightarrow> py_error + medicines_row list" where
  "insert_medicines [] rows = Inr rows"
| "insert_medicines (med # meds) rows =
     (case map_of med ''name'' of
        None \<Rightarrow> Inl KeyError
      | Some name_value \<Rightarrow>
          insert_medicines meds (insert_or_ignore_medicine rows name_value med))"

text \<open>
  The argument \<open>json_file\<close> is the content of the file, \<open>None\<close> when it does not exist
  (\<open>FileNotFoundError\<close> is caught and a message printed). A \<open>KeyError\<close> leaves the
  method before \<open>commit\<close>.
\<close>

definition load_medicine_data :: "db \<Rightarrow> json_object list option \<Rightarrow> py_error + db" where
  "load_medicine_data s json_file =
     (let count = length (medicines s) in
      if count = 0 then
        (case json_file of
           None \<Rightarrow> Inr s
         | Some meds \<Rightarrow>
             (case insert_medicines meds (medicines s) of
                Inl e \<Rightarrow> Inl e
              | Inr rows \<Rightarrow> Inr (s\<lparr>medicines := rows\<rparr>)))
      else Inr s)"

subsection \<open>\<open>add_to_inventory\<close>\<close>

text \<open>
  \<open>strptime\<close> raises \<open>ValueError\<close> before anything is written. \<open>execute\<close> raises
  \<open>OverflowError\<close> when it binds a quantity that is not within 64 bits, and the \<open>INSERT\<close>
  raises \<open>sqlite3.IntegrityError\<close> when foreign keys are enforced and no medicine has the
  id \<open>medicine_id\<close>. The table has no \<open>CHECK\<close> constraint, and the arguments are numbers,
  so \<open>NOT NULL\<close> holds. \<open>purchase_date\<close> takes its default \<open>CURRENT_DATE\<close>.
\<close>

definition add_to_inventory ::
  "db \<Rightarrow> clock \<Rightarrow> int \<Rightarrow> int \<Rightarrow> string \<Rightarrow> real \<Rightarrow> real \<Rightarrow> db \<times> (py_error + int)" where
  "add_to_inventory s clk medicine_id quantity expiry_date purchase_price selling_price =
     (case strptime expiry_date of
        None \<Rightarrow> (s, Inl ValueError)
      | Some expiry \<Rightarrow>
          if \<not> int64 quantity then (s, Inl OverflowError)
          else if foreign_keys s \<and> medicine_id \<notin> set (map m_id (medicines s))
          then (s, Inl IntegrityError)
          else
            (let lastrowid = next_rowid (map i_id (inventory s)) in
             (s\<lparr>inventory := inventory s @
                   [\<lparr>i_id = lastrowid, i_medicine_id = medicine_id, i_quantity = quantity,
                     i_expiry_date = expiry, i_purchase_price = purchase_price,
                     i_selling_price = selling_price, i_purchase_date = today clk\<rparr>]\<rparr>,
              Inr lastrowid)))"

subsection \<open>\<open>sell_medicine\<close>\<close>

text \<open>
  The method returns a pair of a flag and a message. \<open>Failed msg\<close> is
  \<open>(False, msg)\<close>; \<open>Sold quantity customer_name total_amount\<close> is \<open>True\<close> with the
  message formatted from these three values. The row found by the first \<open>SELECT\<close> is the
  one the second reads the price from; the \<open>INSERT\<close> names an inventory row that exists,
  so it passes the foreign key check whatever the setting. \<open>sale_date\<close> takes its default
  \<open>CURRENT_DATE\<close>.

  A quantity that passes the test \<open>available < quantity\<close> and is not within 64 bits makes
  the method raise \<open>OverflowError\<close> before anything is written: \<open>execute\<close> cannot bind it
  for the \<open>INSERT\<close> (and \<open>quantity * selling_price\<close> raises the same error when the
  quantity is too large for a float). \<open>Raised e\<close> is that outcome.
\<close>

datatype sell_result = Sold int string real | Failed string | Raised py_error

definition sell_medicine ::
  "db \<Rightarrow> clock \<Rightarrow> int \<Rightarrow> int \<Rightarrow> string \<Rightarrow> db \<times> sell_result" where
  "sell_medicine s clk inventory_id quantity customer_name =
     (case find (\<lambda>i. i_id i = inventory_id) (inventory s) of
        None \<Rightarrow> (s, Failed ''Inventory item not found'')
      | Some result \<Rightarrow>
          (let available = i_quantity result in
           if available < quantity then (s, Failed ''Not enough stock'')
           else if \<not> int64 quantity then (s, Raised OverflowError)
           else
             (let selling_price = i_selling_price result;
                  total_amount = of_int quantity * selling_price;
                  current_time = local_time clk
              in (s\<lparr>sales := sales s @
                       [\<lparr>s_id = next_rowid (map s_id (sales s)),
                         s_inventory_id = inventory_id, s_quantity = quantity,
                         s_sale_price = selling_price, s_customer_name = customer_name,
                         s_sale_date = today clk, s_sale_time = current_time,
                         s_total_amount = total_amount\<rparr>],
                     inventory := map (\<lambda>i. if i_id i = inventory_id
                                             then i\<lparr>i_quantity := sqlite_minus (i_quantity i) quantity\<rparr>
                                             else i) (inventory s)\<rparr>,
                  Sold quantity customer_name total_amount))))"

subsection \<open>\<open>get_inventory\<close>\<close>

text \<open>
  The query joins every inventory row with the medicine rows of the same id (an inner
  join: a row without such a medicine yields nothing), keeps the rows with
  \<open>i.quantity > 0\<close>, computes the \<open>CASE\<close> expression and sorts by \<open>i.expiry_date\<close>.
  SQL leaves the order of rows with equal keys open; the model sorts stably.
  \<open>low_stock_threshold\<close> is \<open>None\<close> when the caller passes no argument.
\<close>

record inventory_item =
  v_id :: int
  v_name :: string
  v_quantity :: int
  v_expiry_date :: date
  v_purchase_price :: real
  v_selling_price :: real
  v_status :: string

definition status :: "clock \<Rightarrow> int \<Rightarrow> inventory_row \<Rightarrow> string" where
  "status clk threshold i =
     (if i_quantity i \<le> threshold then ''LOW''
      else if i_expiry_date i < today clk + 30 then ''NEAR_EXPIRY''
      else ''OK'')"

definition inventory_item_of ::
  "clock \<Rightarrow> int \<Rightarrow> inventory_row \<Rightarrow> medicines_row \<Rightarrow> inventory_item" where
  "inventory_item_of clk threshold i m =
     \<lparr>v_id = i_id i, v_name = m_name m, v_quantity = i_quantity i,
      v_expiry_date = i_expiry_date i, v_purchase_price = i_purchase_price i,
      v_selling_price = i_selling_price i, v_status = status clk threshold i\<rparr>"

definition get_inventory :: "db \<Rightarrow> clock \<Rightarrow> int option \<Rightarrow> inventory_item list" where
  "get_inventory s clk low_stock_threshold =
     (let threshold = (case low_stock_threshold of None \<Rightarrow> 10 | Some t \<Rightarrow> t) in
      sort_key v_expiry_date
        [inventory_item_of clk threshold i m.
           i \<leftarrow> inventory s, m \<leftarrow> medicines s, i_medicine_id i = m_id m, i_quantity i > 0])"

subsection \<open>\<open>get_sales_report\<close>\<close>

text \<open>
  \<open>create_tables\<close> creates \<open>sales\<close> with the columns \<open>sale_time\<close>, \<open>customer_name\<close> and
  \<open>total_amount\<close>, or adds them to an older table, before any report is asked for. The
  test on \<open>PRAGMA table_info(sales)\<close> therefore succeeds and the first query is the one
  that runs. Its sort is descending and leaves lines with the same date and time in the
  order of the join, that of the sales table.
\<close>

record sales_line =
  r_sale_date :: date
  r_sale_time :: nat
  r_name :: string
  r_customer_name :: string
  r_quantity :: int
  r_total_amount :: real
  r_profit :: real

definition date_filter :: "clock \<Rightarrow> string \<Rightarrow> date option" where
  "date_filter clk period =
     (if period = ''daily'' then Some (today clk)
      else if period = ''weekly'' then Some (today clk - 7)
      else if period = ''monthly'' then Some (start_of_month clk)
      else None)"

definition sales_line_of :: "sales_row \<Rightarrow> inventory_row \<Rightarrow> medicines_row \<Rightarrow> sales_line" where
  "sales_line_of x i m =
     \<lparr>r_sale_date = s_sale_date x, r_sale_time = s_sale_time x, r_name = m_name m,
      r_customer_name = s_customer_name x, r_quantity = s_quantity x,
      r_total_amount = s_total_amount x,
      r_profit = of_int (s_quantity x) * (s_sale_price x - i_purchase_price i)\<rparr>"

definition get_sales_report :: "db \<Rightarrow> clock \<Rightarrow> string \<Rightarrow> sales_line list" where
  "get_sales_report s clk period =
     (case date_filter clk period of
        None \<Rightarrow> []
      | Some since \<Rightarrow>
          rev (sort_key (\<lambda>r. (r_sale_date r, r_sale_time r))
            (rev [sales_line_of x i m.
                    x \<leftarrow> sales s, i \<leftarrow> inventory s, s_inventory_id x = i_id i,
                    m \<leftarrow> medicines s, i_medicine_id i = m_id m, s_sale_date x \<ge> since])))"

subsection \<open>\<open>get_expiring_medicines\<close>\<close>

text \<open>
  \<open>julianday(i.expiry_date)\<close> is the instant 00:00 UTC of the expiry date and
  \<open>julianday('now')\<close> the current instant, both in days; \<open>CAST(... AS INTEGER)\<close> truncates
  their difference toward zero. The difference is computed here in milliseconds, the unit
  in which SQLite holds both instants.

  The upper end of the window is \<open>date('now', '+N days')\<close> with the decimal text of
  \<open>days\<close> for \<open>N\<close>. For a negative argument the modifier reads \<open>+-5 days\<close>, which SQLite
  rejects, and a date after 9999-12-31, day 3652059, is none that SQLite has: in both
  cases the date is \<open>NULL\<close> (\<open>None\<close>) and \<open>BETWEEN\<close> holds for no row.
\<close>

definition last_date :: date where
  "last_date = 3652059"

record expiring_item =
  e_name :: string
  e_quantity :: int
  e_expiry_date :: date
  e_days_remaining :: int

definition cast_integer_days :: "int \<Rightarrow> int" where
  "cast_integer_days ms =
     (if ms < 0 then - ((- ms) div 86400000) else ms div 86400000)"

definition days_remaining :: "clock \<Rightarrow> date \<Rightarrow> int" where
  "days_remaining clk expiry =
     cast_integer_days ((expiry - today clk) * 86400000 - int (utc_ms clk))"

definition date_now_plus_days :: "clock \<Rightarrow> int \<Rightarrow> date option" where
  "date_now_plus_days clk days =
     (if 0 \<le> days \<and> today clk + days \<le> last_date then Some (today clk + days) else None)"

definition between :: "date \<Rightarrow> date \<Rightarrow> date option \<Rightarrow> bool" where
  "between d lo hi = (case hi of None \<Rightarrow> False | Some h \<Rightarrow> lo \<le> d \<and> d \<le> h)"

definition expiring_item_of :: "clock \<Rightarrow> inventory_row \<Rightarrow> medicines_row \<Rightarrow> expiring_item" where
  "expiring_item_of clk i m =
     \<lparr>e_name = m_name m, e_quantity = i_quantity i, e_expiry_date = i_expiry_date i,
      e_days_remaining = days_remaining clk (i_expiry_date i)\<rparr>"

definition get_expiring_medicines :: "db \<Rightarrow> clock \<Rightarrow> int option \<Rightarrow> expiring_item list" where
  "get_expiring_medicines s clk days_arg =
     (let days = (case days_arg of None \<Rightarrow> 30 | Some d \<Rightarrow> d) in
      sort_key e_expiry_date
        [expiring_item_of clk i m.
           i \<leftarrow> inventory s, m \<leftarrow> medicines s, i_medicine_id i = m_id m,
           between (i_expiry_date i) (today clk) (date_now_plus_days clk days)])"

subsection \<open>Sequences of operations\<close>

text \<open>
  The two operations that write to \<open>inventory\<close> and \<open>sales\<close>, each with the clock at the
  moment of the call. Running a sequence of them also keeps two notes outside the
  database: \<open>created\<close>, the quantity every lot was created with (\<open>add_to_inventory\<close>
  enters the quantity it was called with under the id it returns), and \<open>rounded\<close>, the
  ids of the lots of which a sale has been subtracted in floating point.
\<close>

datatype operation = AddLot int int string real real | Sell int int string

definition rounds :: "db \<Rightarrow> int \<Rightarrow> int \<Rightarrow> bool" where
  "rounds s inventory_id quantity =
     (case find (\<lambda>i. i_id i = inventory_id) (inventory s) of
        None \<Rightarrow> False
      | Some lot \<Rightarrow>
          quantity \<le> i_quantity lot \<and> int64 quantity
          \<and> \<not> (int64 (i_quantity lot) \<and> int64 (i_quantity lot - quantity)))"

fun step ::
  "db \<times> (int \<rightharpoonup> int) \<times> int set \<Rightarrow> clock \<times> operation \<Rightarrow> db \<times> (int \<rightharpoonup> int) \<times> int set" where
  "step (s, created, rounded)
        (clk, AddLot medicine_id quantity expiry_date purchase_price selling_price) =
     (case add_to_inventory s clk medicine_id quantity expiry_date purchase_price selling_price of
        (s', Inr lot_id) \<Rightarrow> (s', created(lot_id \<mapsto> quantity), rounded)
      | (s', Inl e) \<Rightarrow> (s', created, rounded))"
| "step (s, created, rounded) (clk, Sell inventory_id quantity customer_name) =
     (fst (sell_medicine s clk inventory_id quantity customer_name), created,
      if rounds s inventory_id quantity then insert inventory_id rounded else rounded)"

definition run ::
  "db \<Rightarrow> (clock \<times> operation) list \<Rightarrow> db \<times> (int \<rightharpoonup> int) \<times> int set" where
  "run s ops = foldl step (s, Map.empty, {}) ops"

definition sold_quantity :: "db \<Rightarrow> int \<Rightarrow> int" where
  "sold_quantity s lot_id =
     sum_list (map s_quantity (filter (\<lambda>x. s_inventory_id x = lot_id) (sales s)))"

definition ledger_inv :: "db \<Rightarrow> (int \<rightharpoonup> int) \<Rightarrow> int set \<Rightarrow> bool" where
  "ledger_inv s created rounded =
     (distinct (map i_id (inventory s))
      \<and> (\<forall>x\<in>set (sales s). s_inventory_id x \<in> set (map i_id (inventory s)))
      \<and> (\<forall>lot\<in>set (inventory s). i_id lot \<notin> rounded \<longrightarrow>
            created (i_id lot) = Some (sold_quantity s (i_id lot) + i_quantity lot)))"

text \<open>
  What the \<open>PRIMARY KEY\<close> and \<open>FOREIGN KEY\<close> clauses of \<open>create_tables\<close> say of a
  database, and the rows they single out: the lot of a sale and the medicine of a lot.
\<close>

definition keys_hold :: "db \<Rightarrow> bool" where
  "keys_hold s =
     (distinct (map m_id (medicines s)) \<and> distinct (map i_id (inventory s))
      \<and> (\<forall>i\<in>set (inventory s). i_medicine_id i \<in> set (map m_id (medicines s)))
      \<and> (\<forall>x\<in>set (sales s). s_inventory_id x \<in> set (map i_id (inventory s))))"

definition medicine_of :: "db \<Rightarrow> inventory_row \<Rightarrow> medicines_row" where
  "medicine_of s i = the (find (\<lambda>m. m_id m = i_medicine_id i) (medicines s))"

definition lot_of :: "db \<Rightarrow> sales_row \<Rightarrow> inventory_row" where
  "lot_of s x = the (find (\<lambda>i. i_id i = s_inventory_id x) (inventory s))"

subsection \<open>Example data\<close>

definition paracetamol :: medicines_row where
  "paracetamol = \<lparr>m_id = 1, m_name = ''Paracetamol'', m_generic_name = None, m_type = None,
     m_power = None, m_company = None, m_price = None\<rparr>"

definition catalog :: db where
  "catalog = \<lparr>foreign_keys = False, medicines = [paracetamol], inventory = [], sales = []\<rparr>"

text \<open>4 November 2026, 12:00 UTC; the day number of the date is 739924.\<close>

definition noon :: clock where
  "noon = \<lparr>utc_year = 2026, utc_month = 11, utc_day = 4, utc_ms = 43200000,
     local_time = 43200\<rparr>"

text \<open>A lot of 100 units expiring on 2099-01-01 (day 766280), bought at 2 and sold at 5.\<close>

definition lot1 :: inventory_row where
  "lot1 = \<lparr>i_id = 1, i_medicine_id = 1, i_quantity = 100, i_expiry_date = 766280,
     i_purchase_price = 2, i_selling_price = 5, i_purchase_date = 739924\<rparr>"

definition shop :: db where
  "shop = \<lparr>foreign_keys = False, medicines = [paracetamol], inventory = [lot1], sales = []\<rparr>"

text \<open>
  The scenario of the specification: a lot of 100 is added, 30 are sold to Alice, and a
  sale of 80 is refused.
\<close>

definition sale1 :: sales_row where
  "sale1 = \<lparr>s_id = 1, s_inventory_id = 1, s_quantity = 30, s_sale_price = 5,
     s_customer_name = ''Alice'', s_sale_date = 739924, s_sale_time = 43200,
     s_total_amount = 150\<rparr>"

definition shop_after_sale :: db where
  "shop_after_sale = shop\<lparr>sales := [sale1], inventory := [lot1\<lparr>i_quantity := 70\<rparr>]\<rparr>"

definition scenario :: "(clock \<times> operation) list" where
  "scenario = [(noon, AddLot 1 100 ''2099-01-01'' 2 5), (noon, Sell 1 30 ''Alice''),
     (noon, Sell 1 80 '''')]"

text \<open>
  A stock for the queries, seen at noon of day 739924 (2026-11-04): lot 2 is low and
  expires in 6 days, lot 3 expires in 10 days, lot 4 is sold out and expires tomorrow,
  lots 5 and 6 expire in 30 and in 31 days, and lot 7 names the medicine 999, which the
  catalog does not have.
\<close>

definition lot2 :: inventory_row where
  "lot2 = \<lparr>i_id = 2, i_medicine_id = 1, i_quantity = 5, i_expiry_date = 739930,
     i_purchase_price = 1, i_selling_price = 2, i_purchase_date = 739924\<rparr>"

definition lot3 :: inventory_row where
  "lot3 = \<lparr>i_id = 3, i_medicine_id = 1, i_quantity = 50, i_expiry_date = 739934,
     i_purchase_price = 1, i_selling_price = 2, i_purchase_date = 739924\<rparr>"

definition lot4 :: inventory_row where
  "lot4 = \<lparr>i_id = 4, i_medicine_id = 1, i_quantity = 0, i_expiry_date = 739925,
     i_purchase_price = 1, i_selling_price = 2, i_purchase_date = 739924\<rparr>"

definition lot5 :: inventory_row where
  "lot5 = \<lparr>i_id = 5, i_medicine_id = 1, i_quantity = 40, i_expiry_date = 739954,
     i_purchase_price = 1, i_selling_price = 2, i_purchase_date = 739924\<rparr>"

definition lot6 :: inventory_row where
  "lot6 = \<lparr>i_id = 6, i_medicine_id = 1, i_quantity = 40, i_expiry_date = 739955,
     i_purchase_price = 1, i_selling_price = 2, i_purchase_date = 739924\<rparr>"

definition lot7 :: inventory_row where
  "lot7 = \<lparr>i_id = 7, i_medicine_id = 999, i_quantity = 40, i_expiry_date = 739926,
     i_purchase_price = 1, i_selling_price = 2, i_purchase_date = 739924\<rparr>"

definition stock :: db where
  "stock = \<lparr>foreign_keys = False, medicines = [paracetamol],
     inventory = [lot1, lot2, lot3, lot4, lot5, lot6, lot7], sales = []\<rparr>"

text \<open>
  Sales of the lot \<open>lot1\<close> for the reports: two of today, and one each of 1 November
  (day 739921), 31 October, seven days ago and eight days ago.
\<close>

definition sale_on :: "int \<Rightarrow> date \<Rightarrow> nat \<Rightarrow> sales_row" where
  "sale_on n d t = \<lparr>s_id = n, s_inventory_id = 1, s_quantity = 1, s_sale_price = 5,
     s_customer_name = '''', s_sale_date = d, s_sale_time = t, s_total_amount = 5\<rparr>"

definition books :: db where
  "books = shop\<lparr>sales := [sale_on 1 739916 100, sale_on 2 739917 100, sale_on 3 739920 100,
     sale_on 4 739921 100, sale_on 5 739924 3600, sale_on 6 739924 43200]\<rparr>"

text \<open>
  A lot added for the medicine 999, which the catalog does not have, and a sale from it.
\<close>

definition orphan_lot :: inventory_row where
  "orphan_lot = \<lparr>i_id = 1, i_medicine_id = 999, i_quantity = 10, i_expiry_date = 739925,
     i_purchase_price = 2, i_selling_price = 5, i_purchase_date = 739924\<rparr>"

definition orphan_sale :: sales_row where
  "orphan_sale = \<lparr>s_id = 1, s_inventory_id = 1, s_quantity = 1, s_sale_price = 5,
     s_customer_name = ''Bob'', s_sale_date = 739924, s_sale_time = 43200,
     s_total_amount = 5\<rparr>"

text \<open>An empty database, and two records of the JSON file with the same name.\<close>

definition empty_db :: db where
  "empty_db = \<lparr>foreign_keys = False, medicines = [], inventory = [], sales = []\<rparr>"

definition aspirin_a :: json_object where
  "aspirin_a = [(''name'', Some ''Aspirin''), (''company'', Some ''Acme'')]"

definition aspirin_b :: json_object where
  "aspirin_b = [(''name'', Some ''Aspirin''), (''company'', Some ''Bayer'')]"

text \<open>
  A sale of \<open>-9223372036854775807\<close> units from the lot of 100, which the driver can bind.
\<close>

definition oversell :: "(clock \<times> operation) list" where
  "oversell = [(noon, AddLot 1 100 ''2099-01-01'' 2 5),
     (noon, Sell 1 (- 9223372036854775807) ''Eve'')]"

definition shop_oversold :: db where
  "shop_oversold = shop\<lparr>sales := [\<lparr>s_id = 1, s_inventory_id = 1,
       s_quantity = - 9223372036854775807, s_sale_price = 5, s_customer_name = ''Eve'',
       s_sale_date = 739924, s_sale_time = 43200,
       s_total_amount = - 46116860184273879035\<rparr>],
     inventory := [lot1\<lparr>i_quantity := 9223372036854775808\<rparr>]\<rparr>"

text \<open>The same stock without lot 7: every lot names a medicine of the catalog.\<close>

definition shelves :: db where
  "shelves = \<lparr>foreign_keys = False, medicines = [paracetamol],
     inventory = [lot1, lot2, lot3, lot4, lot5, lot6], sales = []\<rparr>"

section \<open>Properties\<close>

subsection \<open>Row ids\<close>

lemma foldl_max_ge: "(a::int) \<le> foldl max a xs \<and> (\<forall>x\<in>set xs. x \<le> foldl max a xs)"
proof (induction xs arbitrary: a)
  case Nil
  show ?case by simp
next
  case (Cons y ys)
  have "max a y \<le> foldl max (max a y) ys" and "\<forall>x\<in>set ys. x \<le> foldl max (max a y) ys"
    using Cons.IH [of "max a y"] by simp_all
  then show ?case by auto
qed

lemma next_rowid_greater: "x \<in> set ids \<Longrightarrow> x < next_rowid ids"
proof (cases ids)
  case Nil
  assume "x \<in> set ids"
  with Nil show ?thesis by simp
next
  case (Cons a as)
  assume "x \<in> set ids"
  with Cons foldl_max_ge [of a as] have "x \<le> foldl max a as" by auto
  with Cons show ?thesis by (simp add: next_rowid_def)
qed

lemma next_rowid_fresh: "next_rowid ids \<notin> set ids"
  using next_rowid_greater [of "next_rowid ids" ids] by auto

subsection \<open>SQLite arithmetic\<close>

lemma bit_length_eq: "2 ^ k \<le> n \<Longrightarrow> n < 2 ^ Suc k \<Longrightarrow> bit_length n = Suc k"
proof (induction k arbitrary: n)
  case 0
  then have "n = 1" by simp
  then show ?case by (simp add: bit_length.simps)
next
  case (Suc k)
  from Suc.prems have "2 ^ k \<le> n div 2" and "n div 2 < 2 ^ Suc k" by auto
  then have "bit_length (n div 2) = Suc k" by (rule Suc.IH)
  moreover from Suc.prems have "n \<noteq> 0" by auto
  ultimately show ?case by (subst bit_length.simps) simp
qed

lemma bit_length_le: "n < 2 ^ k \<Longrightarrow> bit_length n \<le> k"
proof (induction k arbitrary: n)
  case 0
  then show ?case by (simp add: bit_length.simps)
next
  case (Suc k)
  from Suc.prems have "n div 2 < 2 ^ k" by auto
  then have "bit_length (n div 2) \<le> k" by (rule Suc.IH)
  then show ?case by (subst bit_length.simps) simp
qed

lemma to_double_small: "\<bar>n\<bar> < 9007199254740992 \<Longrightarrow> to_double n = n"
proof -
  assume "\<bar>n\<bar> < 9007199254740992"
  then have "nat \<bar>n\<bar> < 2 ^ 53" by simp
  then have "bit_length (nat \<bar>n\<bar>) \<le> 53" by (rule bit_length_le)
  then show ?thesis by (simp add: to_double_def Let_def)
qed

lemma sqlite_minus_exact:
  "int64 a \<Longrightarrow> int64 b \<Longrightarrow> int64 (a - b) \<Longrightarrow> sqlite_minus a b = a - b"
  by (simp add: sqlite_minus_def)

lemma int64_between: "0 \<le> q \<Longrightarrow> q \<le> a \<Longrightarrow> int64 a \<Longrightarrow> int64 q \<and> int64 (a - q)"
  by (simp add: int64_def)

text \<open>100 - (-9223372036854775807) is 9223372036854775907; the double is \<open>2 ^ 63\<close>.\<close>

lemma to_double_min: "to_double (- 9223372036854775807) = - 9223372036854775808"
proof -
  have "bit_length 9223372036854775807 = Suc 62" by (rule bit_length_eq) simp_all
  then show ?thesis by (simp add: to_double_def Let_def)
qed

lemma to_double_over: "to_double 9223372036854775908 = 9223372036854775808"
proof -
  have "bit_length 9223372036854775908 = Suc 63" by (rule bit_length_eq) simp_all
  then show ?thesis by (simp add: to_double_def Let_def)
qed

lemma sqlite_minus_rounded: "sqlite_minus 100 (- 9223372036854775807) = 9223372036854775808"
  by (simp add: sqlite_minus_def int64_def to_double_min to_double_over to_double_small)

text \<open>\<open>2 ^ 63 - 1\<close> is not a double; the nearest one is \<open>2 ^ 63\<close>.\<close>

lemma to_double_max: "to_double 9223372036854775807 = 9223372036854775808"
proof -
  have "bit_length 9223372036854775807 = Suc 62" by (rule bit_length_eq) simp_all
  then show ?thesis by (simp add: to_double_def Let_def)
qed

lemma to_double_power: "to_double 9223372036854775808 = 9223372036854775808"
proof -
  have "bit_length 9223372036854775808 = Suc 63" by (rule bit_length_eq) simp_all
  then show ?thesis by (simp add: to_double_def Let_def)
qed

lemma sqlite_minus_absorbed: "sqlite_minus 9223372036854775808 1 = 9223372036854775808"
  by (simp add: sqlite_minus_def int64_def to_double_max to_double_power to_double_small)

subsection \<open>The outcomes of \<open>sell_medicine\<close>\<close>

lemma find_update_quantity:
  "find (\<lambda>i. i_id i = k)
     (map (\<lambda>i. if i_id i = k then i\<lparr>i_quantity := sqlite_minus (i_quantity i) q\<rparr> else i) xs)
     = map_option (\<lambda>i. i\<lparr>i_quantity := sqlite_minus (i_quantity i) q\<rparr>)
         (find (\<lambda>i. i_id i = k) xs)"
  by (induction xs) auto

lemma sell_medicine_overflow:
  "find (\<lambda>i. i_id i = inventory_id) (inventory s) = Some lot \<Longrightarrow> q \<le> i_quantity lot \<Longrightarrow>
     \<not> int64 q \<Longrightarrow> sell_medicine s clk inventory_id q c = (s, Raised OverflowError)"
  by (simp add: sell_medicine_def)

lemma sell_medicine_not_found:
  "find (\<lambda>i. i_id i = inventory_id) (inventory s) = None \<Longrightarrow>
     sell_medicine s clk inventory_id q c = (s, Failed ''Inventory item not found'')"
  by (simp add: sell_medicine_def)

lemma sell_medicine_not_enough:
  "find (\<lambda>i. i_id i = inventory_id) (inventory s) = Some lot \<Longrightarrow> i_quantity lot < q \<Longrightarrow>
     sell_medicine s clk inventory_id q c = (s, Failed ''Not enough stock'')"
  by (simp add: sell_medicine_def)

lemma sell_medicine_sold:
  "find (\<lambda>i. i_id i = inventory_id) (inventory s) = Some lot \<Longrightarrow> q \<le> i_quantity lot \<Longrightarrow>
     int64 q \<Longrightarrow>
     sell_medicine s clk inventory_id q c =
       (s\<lparr>sales := sales s @
             [\<lparr>s_id = next_rowid (map s_id (sales s)), s_inventory_id = inventory_id,
               s_quantity = q, s_sale_price = i_selling_price lot, s_customer_name = c,
               s_sale_date = today clk, s_sale_time = local_time clk,
               s_total_amount = of_int q * i_selling_price lot\<rparr>],
           inventory := map (\<lambda>i. if i_id i = inventory_id
                                   then i\<lparr>i_quantity := sqlite_minus (i_quantity i) q\<rparr> else i)
                          (inventory s)\<rparr>,
        Sold q c (of_int q * i_selling_price lot))"
  by (simp add: sell_medicine_def Let_def)

lemma sell_medicine_cases:
  obtains
    (not_found) "find (\<lambda>i. i_id i = inventory_id) (inventory s) = None"
      "sell_medicine s clk inventory_id q c = (s, Failed ''Inventory item not found'')"
  | (not_enough) lot where "find (\<lambda>i. i_id i = inventory_id) (inventory s) = Some lot"
      "i_quantity lot < q"
      "sell_medicine s clk inventory_id q c = (s, Failed ''Not enough stock'')"
  | (overflow) lot where "find (\<lambda>i. i_id i = inventory_id) (inventory s) = Some lot"
      "q \<le> i_quantity lot" "\<not> int64 q"
      "sell_medicine s clk inventory_id q c = (s, Raised OverflowError)"
  | (sold) lot where "find (\<lambda>i. i_id i = inventory_id) (inventory s) = Some lot"
      "q \<le> i_quantity lot" "int64 q"
      "sell_medicine s clk inventory_id q c =
         (s\<lparr>sales := sales s @
               [\<lparr>s_id = next_rowid (map s_id (sales s)), s_inventory_id = inventory_id,
                 s_quantity = q, s_sale_price = i_selling_price lot, s_customer_name = c,
                 s_sale_date = today clk, s_sale_time = local_time clk,
                 s_total_amount = of_int q * i_selling_price lot\<rparr>],
             inventory := map (\<lambda>i. if i_id i = inventory_id
                                     then i\<lparr>i_quantity := sqlite_minus (i_quantity i) q\<rparr> else i)
                            (inventory s)\<rparr>,
          Sold q c (of_int q * i_selling_price lot))"
proof (cases "find (\<lambda>i. i_id i = inventory_id) (inventory s)")
  case None
  then show ?thesis using not_found sell_medicine_not_found by blast
next
  case (Some lot)
  show ?thesis
  proof (cases "i_quantity lot < q")
    case True
    with Some show ?thesis using not_enough sell_medicine_not_enough by blast
  next
    case False
    then have le: "q \<le> i_quantity lot" by simp
    show ?thesis
    proof (cases "int64 q")
      case True
      with Some le show ?thesis using sold sell_medicine_sold by blast
    next
      case False
      with Some le show ?thesis using overflow sell_medicine_overflow by blast
    qed
  qed
qed

lemma today_noon: "today noon = 739924"
  by (simp add: today_def noon_def ymd2ord_def days_before_year_def days_before_month_def
      is_leap_def)

lemma find_lot1: "find (\<lambda>i. i_id i = 1) (inventory shop) = Some lot1"
  by (simp add: shop_def lot1_def)

lemma strptime_2099: "strptime ''2099-01-01'' = Some 766280"
  by (simp add: strptime_def match_Y_def match_m_def match_d_def is_digit_def digit_val_def
      days_in_month_def ymd2ord_def days_before_year_def days_before_month_def is_leap_def)

lemma scenario_add: "add_to_inventory catalog noon 1 100 ''2099-01-01'' 2 5 = (shop, Inr 1)"
  by (simp add: add_to_inventory_def strptime_2099 Let_def today_noon next_rowid_def
      catalog_def shop_def lot1_def paracetamol_def int64_def)

lemma oversell_sell:
  "sell_medicine shop noon 1 (- 9223372036854775807) ''Eve''
     = (shop_oversold, Sold (- 9223372036854775807) ''Eve'' (- 46116860184273879035))"
  by (simp add: sell_medicine_def shop_def lot1_def Let_def next_rowid_def today_noon
      shop_oversold_def sqlite_minus_rounded int64_def)
     (simp add: noon_def)

lemma oversold_sell:
  "sell_medicine shop_oversold noon 1 1 ''Bob''
     = (shop_oversold\<lparr>sales := sales shop_oversold @
          [\<lparr>s_id = 2, s_inventory_id = 1, s_quantity = 1, s_sale_price = 5,
            s_customer_name = ''Bob'', s_sale_date = 739924, s_sale_time = 43200,
            s_total_amount = 5\<rparr>]\<rparr>,
        Sold 1 ''Bob'' 5)"
  by (simp add: sell_medicine_def shop_oversold_def shop_def lot1_def Let_def next_rowid_def
      today_noon sqlite_minus_absorbed int64_def)
     (simp add: noon_def)

text \<open>
  C1 as the claim states it does not hold for every lot. The quantity of a lot need not
  be an integer of 64 bits: after the lot of 100 is added and \<open>-9223372036854775807\<close> units
  are sold from it, which \<open>sell_medicine\<close> accepts, the lot holds the floating-point
  number \<open>2 ^ 63\<close>. A sale of 1 unit from it succeeds and is recorded, and SQLite
  subtracts in floating point, where \<open>2 ^ 63 - 1\<close> is \<open>2 ^ 63\<close>: the lot is left with what
  it had, not with \<open>Q - q\<close>.
\<close>

theorem sell_medicine_within_stock_counterexample:
  "add_to_inventory catalog noon 1 100 ''2099-01-01'' 2 5 = (shop, Inr 1)
   \<and> fst (sell_medicine shop noon 1 (- 9223372036854775807) ''Eve'') = shop_oversold
   \<and> find (\<lambda>i. i_id i = 1) (inventory shop_oversold)
        = Some (lot1\<lparr>i_quantity := 9223372036854775808\<rparr>)
   \<and> snd (sell_medicine shop_oversold noon 1 1 ''Bob'') = Sold 1 ''Bob'' 5
   \<and> find (\<lambda>i. i_id i = 1) (inventory (fst (sell_medicine shop_oversold noon 1 1 ''Bob'')))
        = Some (lot1\<lparr>i_quantity := 9223372036854775808\<rparr>)
   \<and> length (sales (fst (sell_medicine shop_oversold noon 1 1 ''Bob''))) = 2"
  by (simp add: scenario_add oversell_sell oversold_sell)
     (simp add: shop_oversold_def lot1_def)

text \<open>
  C1, amended. A sale of \<open>q\<close> units with \<open>0 < q \<le> Q\<close> from a lot whose quantity \<open>Q\<close> is an
  integer of 64 bits succeeds. Afterwards the lot holds \<open>Q - q\<close>, and the sales table has
  exactly one more row, whose \<open>sale_price\<close> is the lot's \<open>selling_price\<close> and whose
  \<open>total_amount\<close> is \<open>q * selling_price\<close>. With \<open>q = Q\<close> the lot is left with 0.
\<close>

theorem sell_medicine_within_stock:
  assumes "find (\<lambda>i. i_id i = inventory_id) (inventory s) = Some lot"
    and "int64 (i_quantity lot)" and "0 < q" and "q \<le> i_quantity lot"
  shows "snd (sell_medicine s clk inventory_id q customer_name)
           = Sold q customer_name (of_int q * i_selling_price lot)
       \<and> find (\<lambda>i. i_id i = inventory_id)
            (inventory (fst (sell_medicine s clk inventory_id q customer_name)))
           = Some (lot\<lparr>i_quantity := i_quantity lot - q\<rparr>)
       \<and> (\<exists>sale. sales (fst (sell_medicine s clk inventory_id q customer_name))
                    = sales s @ [sale]
            \<and> s_inventory_id sale = inventory_id \<and> s_quantity sale = q
            \<and> s_sale_price sale = i_selling_price lot
            \<and> s_total_amount sale = of_int q * i_selling_price lot)"
proof -
  from assms(2,3,4) have q: "int64 q" and d: "int64 (i_quantity lot - q)"
    using int64_between [of q "i_quantity lot"] by simp_all
  from assms(2) q d have m: "sqlite_minus (i_quantity lot) q = i_quantity lot - q"
    by (rule sqlite_minus_exact)
  from assms(1,4) q m show ?thesis
    by (simp add: sell_medicine_sold find_update_quantity)
qed

theorem sell_medicine_within_stock_witness:
  "find (\<lambda>i. i_id i = 1) (inventory shop) = Some lot1 \<and> int64 (i_quantity lot1)
   \<and> (0::int) < 100 \<and> 100 \<le> i_quantity lot1
   \<and> snd (sell_medicine shop noon 1 100 ''Alice'') = Sold 100 ''Alice'' 500
   \<and> find (\<lambda>i. i_id i = 1) (inventory (fst (sell_medicine shop noon 1 100 ''Alice'')))
        = Some (lot1\<lparr>i_quantity := 0\<rparr>)
   \<and> length (sales (fst (sell_medicine shop noon 1 100 ''Alice''))) = 1"
proof -
  have q: "100 \<le> i_quantity lot1" and r: "int64 (i_quantity lot1)"
    by (simp_all add: lot1_def int64_def)
  from sell_medicine_within_stock [OF find_lot1 r _ q, of noon "''Alice''"]
  have "snd (sell_medicine shop noon 1 100 ''Alice'')
          = Sold 100 ''Alice'' (100 * i_selling_price lot1)"
    and "find (\<lambda>i. i_id i = 1) (inventory (fst (sell_medicine shop noon 1 100 ''Alice'')))
          = Some (lot1\<lparr>i_quantity := i_quantity lot1 - 100\<rparr>)"
    and "\<exists>sale. sales (fst (sell_medicine shop noon 1 100 ''Alice'')) = sales shop @ [sale]"
    by auto
  then show ?thesis using find_lot1 q r by (auto simp: lot1_def shop_def)
qed

text \<open>
  C2. A sale of more than the lot holds fails with the message \<open>Not enough stock\<close> (the
  failure kind \<open>InsufficientStock\<close>), and a sale from an id that no inventory row has
  fails with \<open>Inventory item not found\<close> (\<open>NotFound\<close>). In both cases the database
  afterwards is the database before: every lot and the whole sales history are
  unchanged.
\<close>

theorem sell_medicine_failure_no_effect:
  "(find (\<lambda>i. i_id i = inventory_id) (inventory s) = Some lot \<and> i_quantity lot < q \<longrightarrow>
      sell_medicine s clk inventory_id q customer_name = (s, Failed ''Not enough stock''))
   \<and> (find (\<lambda>i. i_id i = inventory_id) (inventory s) = None \<longrightarrow>
      sell_medicine s clk inventory_id q customer_name
        = (s, Failed ''Inventory item not found''))"
  by (simp add: sell_medicine_not_found sell_medicine_not_enough)

theorem sell_medicine_failure_no_effect_witness:
  "find (\<lambda>i. i_id i = 1) (inventory shop) = Some lot1 \<and> i_quantity lot1 < 101
   \<and> sell_medicine shop noon 1 101 ''Bob'' = (shop, Failed ''Not enough stock'')
   \<and> find (\<lambda>i. i_id i = 7) (inventory shop) = None
   \<and> sell_medicine shop noon 7 1 ''Bob'' = (shop, Failed ''Inventory item not found'')"
proof -
  have q: "i_quantity lot1 < 101" by (simp add: lot1_def)
  have n: "find (\<lambda>i. i_id i = 7) (inventory shop) = None"
    by (simp add: shop_def lot1_def)
  from sell_medicine_failure_no_effect [of 1 shop lot1 101 noon "''Bob''"] find_lot1 q
  have a: "sell_medicine shop noon 1 101 ''Bob'' = (shop, Failed ''Not enough stock'')"
    by blast
  from sell_medicine_failure_no_effect [of 7 shop lot1 1 noon "''Bob''"] n
  have b: "sell_medicine shop noon 7 1 ''Bob'' = (shop, Failed ''Inventory item not found'')"
    by blast
  from a b q n find_lot1 show ?thesis by blast
qed

text \<open>
  C4 as the claim states it does not hold: \<open>sell_medicine\<close> has no test of the sign of
  \<open>quantity\<close> and no failure for it. Its only test of the quantity is
  \<open>available < quantity\<close>. A sale of 0 or of a negative number of units from a lot that
  holds at least that number is carried out like any other.
\<close>

theorem sell_medicine_nonpositive_counterexample:
  "sell_medicine shop noon 1 (- 5) ''Eve'' =
     (shop\<lparr>sales := [\<lparr>s_id = 1, s_inventory_id = 1, s_quantity = - 5, s_sale_price = 5,
                       s_customer_name = ''Eve'', s_sale_date = 739924, s_sale_time = 43200,
                       s_total_amount = - 25\<rparr>],
           inventory := [lot1\<lparr>i_quantity := 105\<rparr>]\<rparr>,
      Sold (- 5) ''Eve'' (- 25))"
  by (simp add: sell_medicine_def shop_def lot1_def Let_def next_rowid_def today_noon
      sqlite_minus_def int64_def)
     (simp add: noon_def)

text \<open>
  C4, amended. Take an existing lot that holds the integer \<open>Q\<close>, and a quantity
  \<open>q \<le> 0\<close>. When \<open>Q < q\<close>, the message \<open>Not enough stock\<close> is returned and nothing
  changes. When \<open>q \<le> Q\<close> and \<open>q\<close> is below the 64-bit range, \<open>OverflowError\<close> is raised and
  nothing changes. Otherwise the sale succeeds: one sales row with quantity \<open>q\<close> and
  \<open>total_amount = q * selling_price\<close> is appended, and the lot is left with \<open>Q - q\<close> when
  that is within the 64-bit range, and else with the difference of the doubles of \<open>Q\<close>
  and \<open>q\<close>, rounded to a double. No other outcome exists.
\<close>

theorem sell_medicine_nonpositive:
  assumes "find (\<lambda>i. i_id i = inventory_id) (inventory s) = Some lot"
    and "int64 (i_quantity lot)" and "q \<le> 0"
  shows "(i_quantity lot < q \<longrightarrow>
            sell_medicine s clk inventory_id q customer_name = (s, Failed ''Not enough stock''))
       \<and> (q \<le> i_quantity lot \<and> q < - 9223372036854775808 \<longrightarrow>
            sell_medicine s clk inventory_id q customer_name = (s, Raised OverflowError))
       \<and> (q \<le> i_quantity lot \<and> - 9223372036854775808 \<le> q \<longrightarrow>
            snd (sell_medicine s clk inventory_id q customer_name)
              = Sold q customer_name (of_int q * i_selling_price lot)
          \<and> find (\<lambda>i. i_id i = inventory_id)
               (inventory (fst (sell_medicine s clk inventory_id q customer_name)))
              = Some (lot\<lparr>i_quantity :=
                   (if i_quantity lot - q \<le> 9223372036854775807 then i_quantity lot - q
                    else to_double (to_double (i_quantity lot) - to_double q))\<rparr>)
          \<and> (\<exists>sale. sales (fst (sell_medicine s clk inventory_id q customer_name))
                       = sales s @ [sale]
               \<and> s_inventory_id sale = inventory_id \<and> s_quantity sale = q
               \<and> s_sale_price sale = i_selling_price lot
               \<and> s_total_amount sale = of_int q * i_selling_price lot))"
proof (intro conjI impI)
  assume "i_quantity lot < q"
  with assms(1) show "sell_medicine s clk inventory_id q customer_name
      = (s, Failed ''Not enough stock'')"
    by (rule sell_medicine_not_enough)
next
  assume a: "q \<le> i_quantity lot \<and> q < - 9223372036854775808"
  then have "\<not> int64 q" by (simp add: int64_def)
  with assms(1) a show "sell_medicine s clk inventory_id q customer_name
      = (s, Raised OverflowError)"
    by (simp add: sell_medicine_overflow)
next
  assume a: "q \<le> i_quantity lot \<and> - 9223372036854775808 \<le> q"
  with assms(3) have q: "int64 q" by (simp add: int64_def)
  from a assms(2) have "int64 (i_quantity lot - q) \<longleftrightarrow> i_quantity lot - q \<le> 9223372036854775807"
    by (auto simp: int64_def)
  with assms(2) q have m: "sqlite_minus (i_quantity lot) q =
      (if i_quantity lot - q \<le> 9223372036854775807 then i_quantity lot - q
       else to_double (to_double (i_quantity lot) - to_double q))"
    by (simp add: sqlite_minus_def)
  note sold = sell_medicine_sold [OF assms(1) conjunct1 [OF a] q, of clk customer_name]
  show "snd (sell_medicine s clk inventory_id q customer_name)
              = Sold q customer_name (of_int q * i_selling_price lot)"
    by (simp add: sold)
  show "find (\<lambda>i. i_id i = inventory_id)
               (inventory (fst (sell_medicine s clk inventory_id q customer_name)))
              = Some (lot\<lparr>i_quantity :=
                   (if i_quantity lot - q \<le> 9223372036854775807 then i_quantity lot - q
                    else to_double (to_double (i_quantity lot) - to_double q))\<rparr>)"
    unfolding sold fst_conv using assms(1) m by (simp add: find_update_quantity)
  show "\<exists>sale. sales (fst (sell_medicine s clk inventory_id q customer_name))
                       = sales s @ [sale]
               \<and> s_inventory_id sale = inventory_id \<and> s_quantity sale = q
               \<and> s_sale_price sale = i_selling_price lot
               \<and> s_total_amount sale = of_int q * i_selling_price lot"
    by (simp add: sold)
qed

text \<open>
  The four cases on the lot of 100 at the price 5: 0 units; \<open>-9223372036854775807\<close> units,
  which leave the lot with the double \<open>2 ^ 63\<close>; \<open>-9223372036854775809\<close> units; and
  \<open>-5\<close> units when the lot holds \<open>-7\<close>.
\<close>

theorem sell_medicine_nonpositive_witness:
  "find (\<lambda>i. i_id i = 1) (inventory shop) = Some lot1 \<and> int64 (i_quantity lot1)
   \<and> snd (sell_medicine shop noon 1 0 ''Eve'') = Sold 0 ''Eve'' 0
   \<and> find (\<lambda>i. i_id i = 1) (inventory (fst (sell_medicine shop noon 1 0 ''Eve''))) = Some lot1
   \<and> length (sales (fst (sell_medicine shop noon 1 0 ''Eve''))) = 1
   \<and> find (\<lambda>i. i_id i = 1)
        (inventory (fst (sell_medicine shop noon 1 (- 9223372036854775807) ''Eve'')))
        = Some (lot1\<lparr>i_quantity := 9223372036854775808\<rparr>)
   \<and> sell_medicine shop noon 1 (- 9223372036854775809) ''Eve'' = (shop, Raised OverflowError)
   \<and> find (\<lambda>i. i_id i = 1) (inventory (shop\<lparr>inventory := [lot1\<lparr>i_quantity := - 7\<rparr>]\<rparr>))
        = Some (lot1\<lparr>i_quantity := - 7\<rparr>)
   \<and> int64 (i_quantity (lot1\<lparr>i_quantity := - 7\<rparr>))
   \<and> sell_medicine (shop\<lparr>inventory := [lot1\<lparr>i_quantity := - 7\<rparr>]\<rparr>) noon 1 (- 5) ''Eve''
        = (shop\<lparr>inventory := [lot1\<lparr>i_quantity := - 7\<rparr>]\<rparr>, Failed ''Not enough stock'')"
proof -
  have r: "int64 (i_quantity lot1)" and r7: "int64 (i_quantity (lot1\<lparr>i_quantity := - 7\<rparr>))"
    and q100: "i_quantity lot1 = 100"
    by (simp_all add: lot1_def int64_def)
  note t0 = sell_medicine_nonpositive [OF find_lot1 r, of 0 noon "''Eve''"]
  from t0 q100 have a: "snd (sell_medicine shop noon 1 0 ''Eve'') = Sold 0 ''Eve'' 0"
    by simp
  from t0 q100 have "find (\<lambda>i. i_id i = 1) (inventory (fst (sell_medicine shop noon 1 0 ''Eve'')))
      = Some (lot1\<lparr>i_quantity := i_quantity lot1\<rparr>)"
    by simp
  then have b: "find (\<lambda>i. i_id i = 1) (inventory (fst (sell_medicine shop noon 1 0 ''Eve'')))
      = Some lot1"
    by simp
  from t0 q100 have "\<exists>sale. sales (fst (sell_medicine shop noon 1 0 ''Eve'')) = sales shop @ [sale]"
    by auto
  then have c: "length (sales (fst (sell_medicine shop noon 1 0 ''Eve''))) = 1"
    by (auto simp: shop_def)
  note t1 = sell_medicine_nonpositive [OF find_lot1 r, of "- 9223372036854775807" noon "''Eve''"]
  from t1 q100 have d: "find (\<lambda>i. i_id i = 1)
        (inventory (fst (sell_medicine shop noon 1 (- 9223372036854775807) ''Eve'')))
        = Some (lot1\<lparr>i_quantity := 9223372036854775808\<rparr>)"
    by (simp add: to_double_min to_double_over to_double_small)
  note t2 = sell_medicine_nonpositive [OF find_lot1 r, of "- 9223372036854775809" noon "''Eve''"]
  from t2 q100 have e: "sell_medicine shop noon 1 (- 9223372036854775809) ''Eve''
      = (shop, Raised OverflowError)"
    by simp
  have f: "find (\<lambda>i. i_id i = 1) (inventory (shop\<lparr>inventory := [lot1\<lparr>i_quantity := - 7\<rparr>]\<rparr>))
        = Some (lot1\<lparr>i_quantity := - 7\<rparr>)"
    by (simp add: lot1_def)
  from sell_medicine_nonpositive [OF f r7, of "- 5" noon "''Eve''"]
  have g: "sell_medicine (shop\<lparr>inventory := [lot1\<lparr>i_quantity := - 7\<rparr>]\<rparr>) noon 1 (- 5) ''Eve''
        = (shop\<lparr>inventory := [lot1\<lparr>i_quantity := - 7\<rparr>]\<rparr>, Failed ''Not enough stock'')"
    by simp
  from find_lot1 r a b c d e f r7 g show ?thesis by (intro conjI)
qed
text \<open>
  C10. A successful \<open>sell_medicine\<close> leaves the medicines as they are, appends one row to
  the sales and keeps every earlier sale, and changes the inventory row by row in no
  field but \<open>quantity\<close>, and in no row with another id at all. A successful
  \<open>add_to_inventory\<close> leaves medicines and sales as they are and appends one row to the
  inventory, keeping every earlier row.
\<close>

theorem write_operations_frame:
  "(sell_medicine s clk inventory_id q customer_name = (s', Sold q' c' amount) \<longrightarrow>
      foreign_keys s' = foreign_keys s \<and> medicines s' = medicines s
      \<and> (\<exists>sale. sales s' = sales s @ [sale])
      \<and> list_all2 (\<lambda>i i'. i' = i\<lparr>i_quantity := i_quantity i'\<rparr>
                           \<and> (i_id i \<noteq> inventory_id \<longrightarrow> i' = i))
           (inventory s) (inventory s'))
   \<and> (add_to_inventory s clk medicine_id n expiry_date purchase_price selling_price
        = (s'', Inr lot_id) \<longrightarrow>
      foreign_keys s'' = foreign_keys s \<and> medicines s'' = medicines s \<and> sales s'' = sales s
      \<and> (\<exists>lot. inventory s'' = inventory s @ [lot] \<and> i_id lot = lot_id))"
proof (intro conjI impI)
  assume ok: "sell_medicine s clk inventory_id q customer_name = (s', Sold q' c' amount)"
  have inv: "list_all2 (\<lambda>i i'. i' = i\<lparr>i_quantity := i_quantity i'\<rparr>
                \<and> (i_id i \<noteq> inventory_id \<longrightarrow> i' = i))
       xs (map (\<lambda>i. if i_id i = inventory_id
                      then i\<lparr>i_quantity := sqlite_minus (i_quantity i) q\<rparr> else i) xs)" for xs
    by (induction xs) auto
  from ok show "foreign_keys s' = foreign_keys s" and "medicines s' = medicines s"
    and "\<exists>sale. sales s' = sales s @ [sale]"
    by (cases rule: sell_medicine_cases [of inventory_id s clk q customer_name]; auto)+
  from ok inv [of "inventory s"] show "list_all2 (\<lambda>i i'. i' = i\<lparr>i_quantity := i_quantity i'\<rparr>
                \<and> (i_id i \<noteq> inventory_id \<longrightarrow> i' = i)) (inventory s) (inventory s')"
    by (cases rule: sell_medicine_cases [of inventory_id s clk q customer_name]) auto
next
  assume ok: "add_to_inventory s clk medicine_id n expiry_date purchase_price selling_price
        = (s'', Inr lot_id)"
  then show "foreign_keys s'' = foreign_keys s" and "medicines s'' = medicines s"
    and "sales s'' = sales s"
    and "\<exists>lot. inventory s'' = inventory s @ [lot] \<and> i_id lot = lot_id"
    by (auto simp: add_to_inventory_def Let_def split: option.splits if_splits)
qed


theorem write_operations_frame_witness:
  "sell_medicine shop noon 1 30 ''Alice'' =
     (shop\<lparr>sales := [\<lparr>s_id = 1, s_inventory_id = 1, s_quantity = 30, s_sale_price = 5,
                       s_customer_name = ''Alice'', s_sale_date = 739924, s_sale_time = 43200,
                       s_total_amount = 150\<rparr>],
           inventory := [lot1\<lparr>i_quantity := 70\<rparr>]\<rparr>,
      Sold 30 ''Alice'' 150)
   \<and> medicines (fst (sell_medicine shop noon 1 30 ''Alice'')) = medicines shop
   \<and> add_to_inventory shop noon 1 20 ''2027-06-30'' 3 4 =
       (shop\<lparr>inventory := [lot1, \<lparr>i_id = 2, i_medicine_id = 1, i_quantity = 20,
                 i_expiry_date = 740162, i_purchase_price = 3, i_selling_price = 4,
                 i_purchase_date = 739924\<rparr>]\<rparr>, Inr 2)
   \<and> sales (fst (add_to_inventory shop noon 1 20 ''2027-06-30'' 3 4)) = sales shop"
proof -
  let ?s1 = "shop\<lparr>sales := [\<lparr>s_id = 1, s_inventory_id = 1, s_quantity = 30, s_sale_price = 5,
                       s_customer_name = ''Alice'', s_sale_date = 739924, s_sale_time = 43200,
                       s_total_amount = 150\<rparr>],
           inventory := [lot1\<lparr>i_quantity := 70\<rparr>]\<rparr>"
  let ?s2 = "shop\<lparr>inventory := [lot1, \<lparr>i_id = 2, i_medicine_id = 1, i_quantity = 20,
                 i_expiry_date = 740162, i_purchase_price = 3, i_selling_price = 4,
                 i_purchase_date = 739924\<rparr>]\<rparr>"
  have a: "sell_medicine shop noon 1 30 ''Alice'' = (?s1, Sold 30 ''Alice'' 150)"
    by (simp add: sell_medicine_def shop_def lot1_def Let_def next_rowid_def today_noon
        sqlite_minus_def int64_def)
       (simp add: noon_def)
  have p: "strptime ''2027-06-30'' = Some 740162"
    by (simp add: strptime_def match_Y_def match_m_def match_d_def is_digit_def digit_val_def
        days_in_month_def ymd2ord_def days_before_year_def days_before_month_def is_leap_def)
  have b: "add_to_inventory shop noon 1 20 ''2027-06-30'' 3 4 = (?s2, Inr 2)"
    by (simp add: add_to_inventory_def p Let_def today_noon next_rowid_def shop_def lot1_def
        int64_def)
  note f = write_operations_frame [of shop noon 1 30 "''Alice''" ?s1 30 "''Alice''" 150
      1 20 "''2027-06-30''" 3 4 ?s2 2]
  from f a have m: "medicines ?s1 = medicines shop" by blast
  from f b have s: "sales ?s2 = sales shop" by blast
  from m a have m': "medicines (fst (sell_medicine shop noon 1 30 ''Alice'')) = medicines shop"
    by (simp only: fst_conv)
  from s b have s': "sales (fst (add_to_inventory shop noon 1 20 ''2027-06-30'' 3 4)) = sales shop"
    by (simp only: fst_conv)
  from a b m' s' show ?thesis by (intro conjI)
qed

subsection \<open>The stock ledger\<close>

lemma sold_quantity_append:
  "sold_quantity (s\<lparr>sales := sales s @ [x], inventory := rows\<rparr>) k
     = sold_quantity s k + (if s_inventory_id x = k then s_quantity x else 0)"
  by (simp add: sold_quantity_def)

lemma sold_quantity_inventory:
  "sold_quantity (s\<lparr>inventory := rows\<rparr>) k = sold_quantity s k"
  by (simp add: sold_quantity_def)

lemma sold_quantity_unreferenced:
  "\<forall>x\<in>set (sales s). s_inventory_id x \<noteq> k \<Longrightarrow> sold_quantity s k = 0"
  by (simp add: sold_quantity_def filter_False)

lemma find_Some_id:
  "find (\<lambda>i. i_id i = k) xs = Some lot \<Longrightarrow> lot \<in> set xs \<and> i_id lot = k"
  by (induction xs) (auto split: if_splits)

lemma find_distinct_id:
  "distinct (map i_id xs) \<Longrightarrow> find (\<lambda>i. i_id i = k) xs = Some lot \<Longrightarrow> i \<in> set xs \<Longrightarrow>
     i_id i = k \<Longrightarrow> i = lot"
  by (induction xs) (auto split: if_splits)

lemma map_id_update_quantity:
  "map i_id (map (\<lambda>i. if i_id i = k then i\<lparr>i_quantity := f i\<rparr> else i) xs) = map i_id xs"
  by (induction xs) auto

lemma ledger_inv_mono:
  "ledger_inv s created rounded \<Longrightarrow> rounded \<subseteq> rounded' \<Longrightarrow> ledger_inv s created rounded'"
  unfolding ledger_inv_def by blast

lemma ledger_inv_sell:
  assumes "ledger_inv s created rounded"
  shows "ledger_inv (fst (sell_medicine s clk inventory_id q c)) created
           (if rounds s inventory_id q then insert inventory_id rounded else rounded)"
    (is "ledger_inv _ _ ?R")
proof (cases rule: sell_medicine_cases [of inventory_id s clk q c])
  case not_found
  with assms show ?thesis by (auto intro: ledger_inv_mono)
next
  case (not_enough lot)
  with assms show ?thesis by (auto intro: ledger_inv_mono)
next
  case (overflow lot)
  with assms show ?thesis by (auto intro: ledger_inv_mono)
next
  case (sold lot)
  define upd :: "inventory_row \<Rightarrow> inventory_row" where
    "upd = (\<lambda>i. if i_id i = inventory_id
                 then i\<lparr>i_quantity := sqlite_minus (i_quantity i) q\<rparr> else i)"
  define x :: sales_row where
    "x = \<lparr>s_id = next_rowid (map s_id (sales s)), s_inventory_id = inventory_id,
           s_quantity = q, s_sale_price = i_selling_price lot, s_customer_name = c,
           s_sale_date = today clk, s_sale_time = local_time clk,
           s_total_amount = of_int q * i_selling_price lot\<rparr>"
  define s' where "s' = s\<lparr>sales := sales s @ [x], inventory := map upd (inventory s)\<rparr>"
  from sold(4) have res: "fst (sell_medicine s clk inventory_id q c) = s'"
    by (simp add: s'_def x_def upd_def)
  have inv': "inventory s' = map upd (inventory s)" and sales': "sales s' = sales s @ [x]"
    by (simp_all add: s'_def)
  have "map i_id (map upd (inventory s)) = map i_id (inventory s)"
    unfolding upd_def by (rule map_id_update_quantity)
  then have ids: "map i_id (inventory s') = map i_id (inventory s)"
    by (simp only: inv')
  from sold(1) have ex: "inventory_id \<in> set (map i_id (inventory s))"
    using find_Some_id [of inventory_id "inventory s" lot] by force
  from assms have d: "distinct (map i_id (inventory s))"
    and r: "\<forall>y\<in>set (sales s). s_inventory_id y \<in> set (map i_id (inventory s))"
    and l: "\<forall>lot\<in>set (inventory s). i_id lot \<notin> rounded \<longrightarrow>
              created (i_id lot) = Some (sold_quantity s (i_id lot) + i_quantity lot)"
    by (simp_all add: ledger_inv_def)
  have xid: "s_inventory_id x = inventory_id" and xq: "s_quantity x = q"
    by (simp_all add: x_def)
  have sq: "sold_quantity s' k = sold_quantity s k + (if inventory_id = k then q else 0)" for k
    unfolding s'_def sold_quantity_append xid xq ..
  have c1: "distinct (map i_id (inventory s'))"
    using d by (simp only: ids)
  have c2: "\<forall>y\<in>set (sales s'). s_inventory_id y \<in> set (map i_id (inventory s'))"
  proof
    fix y assume "y \<in> set (sales s')"
    then have "y \<in> set (sales s) \<or> y = x" by (auto simp: sales')
    then have "s_inventory_id y \<in> set (map i_id (inventory s))"
      using r ex xid by blast
    then show "s_inventory_id y \<in> set (map i_id (inventory s'))"
      by (simp only: ids)
  qed
  have c3: "\<forall>lot\<in>set (inventory s'). i_id lot \<notin> ?R \<longrightarrow>
              created (i_id lot) = Some (sold_quantity s' (i_id lot) + i_quantity lot)"
  proof (intro ballI impI)
    fix j assume "j \<in> set (inventory s')" and nr: "i_id j \<notin> ?R"
    then obtain i where i: "i \<in> set (inventory s)" and j: "j = upd i"
      by (auto simp: inv')
    have jid: "i_id j = i_id i" by (simp add: j upd_def)
    from nr jid have "i_id i \<notin> rounded" by (auto split: if_splits)
    with l i have li: "created (i_id i) = Some (sold_quantity s (i_id i) + i_quantity i)"
      by blast
    show "created (i_id j) = Some (sold_quantity s' (i_id j) + i_quantity j)"
    proof (cases "i_id i = inventory_id")
      case True
      have il: "i = lot" by (rule find_distinct_id [OF d sold(1) i True])
      from nr jid True have "\<not> rounds s inventory_id q" by (auto split: if_splits)
      with sold(1,2,3) have "int64 (i_quantity lot)" and "int64 (i_quantity lot - q)"
        by (simp_all add: rounds_def)
      with sold(3) have "sqlite_minus (i_quantity lot) q = i_quantity lot - q"
        by (simp add: sqlite_minus_exact)
      with True il have "i_quantity j = i_quantity i - q"
        by (simp add: j upd_def)
      with li True jid show ?thesis by (simp add: sq)
    next
      case False
      then have "j = i" by (simp add: j upd_def)
      with li False show ?thesis by (simp add: sq)
    qed
  qed
  from c1 c2 c3 show ?thesis unfolding res ledger_inv_def by blast
qed

lemma add_to_inventory_cases:
  obtains
    (bad_date) "strptime e = None"
      "add_to_inventory s clk medicine_id n e pp sp = (s, Inl ValueError)"
  | (overflow) expiry where "strptime e = Some expiry" "\<not> int64 n"
      "add_to_inventory s clk medicine_id n e pp sp = (s, Inl OverflowError)"
  | (bad_reference) expiry where "strptime e = Some expiry" "int64 n"
      "foreign_keys s" "medicine_id \<notin> set (map m_id (medicines s))"
      "add_to_inventory s clk medicine_id n e pp sp = (s, Inl IntegrityError)"
  | (added) expiry where "strptime e = Some expiry" "int64 n"
      "\<not> (foreign_keys s \<and> medicine_id \<notin> set (map m_id (medicines s)))"
      "add_to_inventory s clk medicine_id n e pp sp =
         (s\<lparr>inventory := inventory s @
               [\<lparr>i_id = next_rowid (map i_id (inventory s)), i_medicine_id = medicine_id,
                 i_quantity = n, i_expiry_date = expiry, i_purchase_price = pp,
                 i_selling_price = sp, i_purchase_date = today clk\<rparr>]\<rparr>,
          Inr (next_rowid (map i_id (inventory s))))"
proof (cases "strptime e")
  case None
  then have "add_to_inventory s clk medicine_id n e pp sp = (s, Inl ValueError)"
    by (simp add: add_to_inventory_def)
  with None show ?thesis by (rule bad_date)
next
  case (Some expiry)
  show ?thesis
  proof (cases "int64 n")
    case False
    with Some have "add_to_inventory s clk medicine_id n e pp sp = (s, Inl OverflowError)"
      by (simp add: add_to_inventory_def)
    with Some False show ?thesis by (rule overflow)
  next
    case n: True
    show ?thesis
    proof (cases "foreign_keys s \<and> medicine_id \<notin> set (map m_id (medicines s))")
      case True
      with Some n have "add_to_inventory s clk medicine_id n e pp sp = (s, Inl IntegrityError)"
        by (simp add: add_to_inventory_def)
      with Some n True show ?thesis using bad_reference by blast
    next
      case False
      with Some n have "add_to_inventory s clk medicine_id n e pp sp =
           (s\<lparr>inventory := inventory s @
                 [\<lparr>i_id = next_rowid (map i_id (inventory s)), i_medicine_id = medicine_id,
                   i_quantity = n, i_expiry_date = expiry, i_purchase_price = pp,
                   i_selling_price = sp, i_purchase_date = today clk\<rparr>]\<rparr>,
            Inr (next_rowid (map i_id (inventory s))))"
        by (simp add: add_to_inventory_def Let_def)
      with Some n False show ?thesis by (rule added)
    qed
  qed
qed

lemma ledger_inv_add:
  assumes "ledger_inv s created rounded"
    and "add_to_inventory s clk medicine_id n e pp sp = (s', Inr lot_id)"
  shows "ledger_inv s' (created(lot_id \<mapsto> n)) rounded"
proof (cases rule: add_to_inventory_cases [of e s clk medicine_id n pp sp])
  case bad_date
  with assms(2) show ?thesis by simp
next
  case (overflow expiry)
  with assms(2) show ?thesis by simp
next
  case (bad_reference expiry)
  with assms(2) show ?thesis by simp
next
  case (added expiry)
  define new :: inventory_row where
    "new = \<lparr>i_id = next_rowid (map i_id (inventory s)), i_medicine_id = medicine_id,
             i_quantity = n, i_expiry_date = expiry, i_purchase_price = pp,
             i_selling_price = sp, i_purchase_date = today clk\<rparr>"
  from added(4) assms(2) have id: "lot_id = next_rowid (map i_id (inventory s))"
    and s': "s' = s\<lparr>inventory := inventory s @ [new]\<rparr>"
    by (simp_all add: new_def)
  have nid: "i_id new = lot_id" and nq: "i_quantity new = n"
    by (simp_all add: new_def id)
  have inv': "inventory s' = inventory s @ [new]" and sales': "sales s' = sales s"
    by (simp_all add: s')
  have sq: "sold_quantity s' k = sold_quantity s k" for k
    unfolding s' by (rule sold_quantity_inventory)
  have fresh: "lot_id \<notin> set (map i_id (inventory s))"
    unfolding id by (rule next_rowid_fresh)
  from assms(1) have d: "distinct (map i_id (inventory s))"
    and r: "\<forall>x\<in>set (sales s). s_inventory_id x \<in> set (map i_id (inventory s))"
    and l: "\<forall>lot\<in>set (inventory s). i_id lot \<notin> rounded \<longrightarrow>
              created (i_id lot) = Some (sold_quantity s (i_id lot) + i_quantity lot)"
    by (simp_all add: ledger_inv_def)
  from r fresh have "\<forall>x\<in>set (sales s). s_inventory_id x \<noteq> lot_id" by blast
  then have zero: "sold_quantity s lot_id = 0" by (rule sold_quantity_unreferenced)
  have c1: "distinct (map i_id (inventory s'))"
    using d fresh by (simp add: inv' nid)
  have c2: "\<forall>x\<in>set (sales s'). s_inventory_id x \<in> set (map i_id (inventory s'))"
    using r by (simp add: inv' sales')
  have c3: "\<forall>lot\<in>set (inventory s'). i_id lot \<notin> rounded \<longrightarrow>
      (created(lot_id \<mapsto> n)) (i_id lot) = Some (sold_quantity s' (i_id lot) + i_quantity lot)"
  proof (intro ballI impI)
    fix j assume "j \<in> set (inventory s')" and nr: "i_id j \<notin> rounded"
    then have "j \<in> set (inventory s) \<or> j = new" by (auto simp: inv')
    then show "(created(lot_id \<mapsto> n)) (i_id j)
        = Some (sold_quantity s' (i_id j) + i_quantity j)"
    proof
      assume j: "j \<in> set (inventory s)"
      with fresh have "i_id j \<noteq> lot_id" by auto
      with l j nr show ?thesis by (simp add: sq)
    next
      assume "j = new"
      then show ?thesis by (simp add: nid nq sq zero)
    qed
  qed
  from c1 c2 c3 show ?thesis unfolding ledger_inv_def by blast
qed

lemma add_to_inventory_failed:
  "add_to_inventory s clk medicine_id n e pp sp = (s', Inl err) \<Longrightarrow> s' = s"
  by (cases rule: add_to_inventory_cases [of e s clk medicine_id n pp sp]) simp_all

lemma step_AddLot_failed:
  "add_to_inventory s clk medicine_id n e pp sp = (t, Inl err) \<Longrightarrow>
     step (s, created, rounded) (clk, AddLot medicine_id n e pp sp) = (t, created, rounded)"
  by simp

lemma step_AddLot_added:
  "add_to_inventory s clk medicine_id n e pp sp = (t, Inr lot_id) \<Longrightarrow>
     step (s, created, rounded) (clk, AddLot medicine_id n e pp sp)
       = (t, created(lot_id \<mapsto> n), rounded)"
  by simp

lemma ledger_inv_step:
  assumes inv: "ledger_inv s created rounded"
    and st: "step (s, created, rounded) (clk, op) = (s', created', rounded')"
  shows "ledger_inv s' created' rounded'"
proof (cases op)
  case (AddLot medicine_id n e pp sp)
  obtain t res where a: "add_to_inventory s clk medicine_id n e pp sp = (t, res)"
    by (cases "add_to_inventory s clk medicine_id n e pp sp")
  show ?thesis
  proof (cases res)
    case (Inl err)
    from a Inl have a': "add_to_inventory s clk medicine_id n e pp sp = (t, Inl err)"
      by simp
    from st step_AddLot_failed [OF a', of created rounded]
    have "s' = t" and "created' = created" and "rounded' = rounded"
      unfolding AddLot by simp_all
    moreover from a' have "t = s" by (rule add_to_inventory_failed)
    ultimately show ?thesis using inv by simp
  next
    case (Inr lot_id)
    from a Inr have a': "add_to_inventory s clk medicine_id n e pp sp = (t, Inr lot_id)"
      by simp
    from st step_AddLot_added [OF a', of created rounded]
    have "s' = t" and "created' = created(lot_id \<mapsto> n)" and "rounded' = rounded"
      unfolding AddLot by simp_all
    with ledger_inv_add [OF inv a'] show ?thesis by simp
  qed
next
  case (Sell inventory_id q c)
  from st have "s' = fst (sell_medicine s clk inventory_id q c)" and "created' = created"
    and "rounded' = (if rounds s inventory_id q then insert inventory_id rounded else rounded)"
    unfolding Sell by simp_all
  with ledger_inv_sell [OF inv, of clk inventory_id q c] show ?thesis by simp
qed

lemma ledger_inv_foldl:
  "ledger_inv s created rounded \<Longrightarrow>
   foldl step (s, created, rounded) ops = (s', created', rounded') \<Longrightarrow>
     ledger_inv s' created' rounded'"
proof (induction ops arbitrary: s created rounded)
  case Nil
  then show ?case by simp
next
  case (Cons a ops)
  obtain clk op where a: "a = (clk, op)" by (cases a)
  obtain t cr ro where st: "step (s, created, rounded) (clk, op) = (t, cr, ro)"
    by (cases "step (s, created, rounded) (clk, op)")
  from Cons.prems(1) st have "ledger_inv t cr ro" by (rule ledger_inv_step)
  moreover from Cons.prems(2) a st have "foldl step (t, cr, ro) ops = (s', created', rounded')"
    by simp
  ultimately show ?case by (rule Cons.IH)
qed

lemma scenario_sell:
  "sell_medicine shop noon 1 30 ''Alice'' = (shop_after_sale, Sold 30 ''Alice'' 150)"
  by (simp add: sell_medicine_def shop_def lot1_def Let_def next_rowid_def today_noon
      shop_after_sale_def sale1_def sqlite_minus_def int64_def)
     (simp add: noon_def)

lemma scenario_refused:
  "sell_medicine shop_after_sale noon 1 80 '''' = (shop_after_sale, Failed ''Not enough stock'')"
  by (simp add: sell_medicine_def shop_after_sale_def shop_def lot1_def)

lemma scenario_rounds:
  "\<not> rounds shop 1 30" "\<not> rounds shop_after_sale 1 80"
  by (simp_all add: rounds_def shop_after_sale_def shop_def lot1_def int64_def)

lemma scenario_run:
  "fst (run catalog scenario) = shop_after_sale
   \<and> fst (snd (run catalog scenario)) 1 = Some 100
   \<and> snd (snd (run catalog scenario)) = {}"
  by (simp add: run_def scenario_def scenario_add scenario_sell scenario_refused
      scenario_rounds)

text \<open>
  C3 as the claim states it does not hold. The driver binds \<open>-9223372036854775807\<close>, the
  test \<open>available < quantity\<close> lets it pass, and \<open>100 - (-9223372036854775807)\<close> does not fit
  64 bits: SQLite subtracts in floating point and the lot is left with \<open>2 ^ 63\<close>. The one
  sale and the lot's quantity add up to 1, and the lot was created with 100.
\<close>

theorem stock_ledger_counterexample:
  "fst (run catalog oversell) = shop_oversold
   \<and> inventory shop_oversold = [lot1\<lparr>i_quantity := 9223372036854775808\<rparr>]
   \<and> fst (snd (run catalog oversell)) 1 = Some 100
   \<and> sold_quantity shop_oversold 1 + 9223372036854775808 = 1"
  by (simp add: run_def oversell_def scenario_add oversell_sell)
     (simp add: shop_oversold_def sold_quantity_def)

text \<open>
  C3, amended. Start from a database without lots and sales and run any sequence of
  \<open>add_to_inventory\<close> and \<open>sell_medicine\<close> calls, with any arguments and clocks. For every
  lot of the resulting inventory of which no sale has been subtracted in floating point
  (no sale took its quantity out of the 64-bit range), the quantities of the sales rows
  that reference the lot and the lot's current quantity add up to the quantity the lot
  was created with.
\<close>

theorem stock_ledger_balanced:
  assumes "inventory s0 = []" and "sales s0 = []"
    and "run s0 ops = (s, created, rounded)"
    and "lot \<in> set (inventory s)" and "i_id lot \<notin> rounded"
  shows "created (i_id lot) = Some (sold_quantity s (i_id lot) + i_quantity lot)"
proof -
  from assms(1,2) have "ledger_inv s0 Map.empty {}" by (simp add: ledger_inv_def)
  moreover from assms(3) have "foldl step (s0, Map.empty, {}) ops = (s, created, rounded)"
    by (simp add: run_def)
  ultimately have "ledger_inv s created rounded" by (rule ledger_inv_foldl)
  with assms(4,5) show ?thesis by (simp add: ledger_inv_def)
qed

theorem stock_ledger_balanced_witness:
  "inventory catalog = [] \<and> sales catalog = []
   \<and> run catalog scenario = (fst (run catalog scenario), fst (snd (run catalog scenario)),
        snd (snd (run catalog scenario)))
   \<and> lot1\<lparr>i_quantity := 70\<rparr> \<in> set (inventory (fst (run catalog scenario)))
   \<and> i_id (lot1\<lparr>i_quantity := 70\<rparr>) \<notin> snd (snd (run catalog scenario))
   \<and> fst (snd (run catalog scenario)) 1 = Some 100
   \<and> sold_quantity (fst (run catalog scenario)) 1 = 30
   \<and> fst (snd (run catalog scenario)) (i_id (lot1\<lparr>i_quantity := 70\<rparr>))
        = Some (sold_quantity (fst (run catalog scenario)) (i_id (lot1\<lparr>i_quantity := 70\<rparr>))
                  + i_quantity (lot1\<lparr>i_quantity := 70\<rparr>))"
proof -
  have e: "inventory catalog = []" and f: "sales catalog = []"
    by (simp_all add: catalog_def)
  have r: "run catalog scenario = (fst (run catalog scenario), fst (snd (run catalog scenario)),
        snd (snd (run catalog scenario)))"
    by simp
  have m: "lot1\<lparr>i_quantity := 70\<rparr> \<in> set (inventory (fst (run catalog scenario)))"
    by (simp add: scenario_run shop_after_sale_def)
  have n: "i_id (lot1\<lparr>i_quantity := 70\<rparr>) \<notin> snd (snd (run catalog scenario))"
    by (simp add: scenario_run)
  have q: "sold_quantity (fst (run catalog scenario)) 1 = 30"
    by (simp add: scenario_run shop_after_sale_def sold_quantity_def sale1_def)
  note b = stock_ledger_balanced [OF e f r m n]
  from e f r m n q b scenario_run show ?thesis by (intro conjI) simp_all
qed

text \<open>
  No sale is subtracted in floating point in a sequence without a negative sale quantity:
  every lot is created with an integer of 64 bits, and a sale of \<open>0 \<le> q \<le> Q\<close> leaves one.
\<close>

lemma exact_sell:
  assumes d: "distinct (map i_id (inventory s))"
    and r: "\<forall>lot\<in>set (inventory s). int64 (i_quantity lot)" and q: "0 \<le> q"
  shows "\<not> rounds s inventory_id q
       \<and> distinct (map i_id (inventory (fst (sell_medicine s clk inventory_id q c))))
       \<and> (\<forall>lot\<in>set (inventory (fst (sell_medicine s clk inventory_id q c))).
             int64 (i_quantity lot))"
proof (cases rule: sell_medicine_cases [of inventory_id s clk q c])
  case not_found
  with d r show ?thesis by (simp add: rounds_def)
next
  case (not_enough lot)
  with d r show ?thesis by (simp add: rounds_def)
next
  case (overflow lot)
  with d r show ?thesis by (simp add: rounds_def)
next
  case (sold lot)
  from sold(1) have lot: "lot \<in> set (inventory s)"
    using find_Some_id [of inventory_id "inventory s" lot] by simp
  with r have rl: "int64 (i_quantity lot)" by blast
  from int64_between [OF q sold(2) rl] have rq: "int64 (i_quantity lot - q)" by simp
  from sold(1) rl rq have nr: "\<not> rounds s inventory_id q" by (simp add: rounds_def)
  from rl sold(3) rq have m: "sqlite_minus (i_quantity lot) q = i_quantity lot - q"
    by (simp add: sqlite_minus_exact)
  have "int64 (i_quantity j)"
    if "j \<in> set (map (\<lambda>i. if i_id i = inventory_id
        then i\<lparr>i_quantity := sqlite_minus (i_quantity i) q\<rparr> else i) (inventory s))" for j
  proof -
    from that obtain i where i: "i \<in> set (inventory s)"
      and j: "j = (if i_id i = inventory_id
        then i\<lparr>i_quantity := sqlite_minus (i_quantity i) q\<rparr> else i)"
      by auto
    show ?thesis
    proof (cases "i_id i = inventory_id")
      case True
      have "i = lot" by (rule find_distinct_id [OF d sold(1) i True])
      with True j m rq show ?thesis by simp
    next
      case False
      with j i r show ?thesis by simp
    qed
  qed
  moreover have "distinct (map i_id (map (\<lambda>i. if i_id i = inventory_id
        then i\<lparr>i_quantity := sqlite_minus (i_quantity i) q\<rparr> else i) (inventory s)))"
    using d by (simp only: map_id_update_quantity)
  ultimately show ?thesis
    unfolding sold(4) fst_conv using nr by simp
qed

lemma exact_add:
  assumes d: "distinct (map i_id (inventory s))"
    and r: "\<forall>lot\<in>set (inventory s). int64 (i_quantity lot)"
  shows "distinct (map i_id (inventory (fst (add_to_inventory s clk medicine_id n e pp sp))))
       \<and> (\<forall>lot\<in>set (inventory (fst (add_to_inventory s clk medicine_id n e pp sp))).
             int64 (i_quantity lot))"
proof (cases rule: add_to_inventory_cases [of e s clk medicine_id n pp sp])
  case bad_date
  with d r show ?thesis by simp
next
  case (overflow expiry)
  with d r show ?thesis by simp
next
  case (bad_reference expiry)
  with d r show ?thesis by simp
next
  case (added expiry)
  have "next_rowid (map i_id (inventory s)) \<notin> set (map i_id (inventory s))"
    by (rule next_rowid_fresh)
  with d r added(2) show ?thesis unfolding added(4) fst_conv by simp
qed

lemma nonnegative_sales_exact_foldl:
  "distinct (map i_id (inventory s)) \<Longrightarrow> \<forall>lot\<in>set (inventory s). int64 (i_quantity lot) \<Longrightarrow>
   \<forall>(clk, op)\<in>set ops. case op of Sell inventory_id q c \<Rightarrow> 0 \<le> q | _ \<Rightarrow> True \<Longrightarrow>
   snd (snd (foldl step (s, created, rounded) ops)) = rounded"
proof (induction ops arbitrary: s created rounded)
  case Nil
  show ?case by simp
next
  case (Cons a ops)
  obtain clk op where a: "a = (clk, op)" by (cases a)
  from Cons.prems(3) have rest:
    "\<forall>(clk, op)\<in>set ops. case op of Sell inventory_id q c \<Rightarrow> 0 \<le> q | _ \<Rightarrow> True"
    by simp
  show ?case
  proof (cases op)
    case (AddLot medicine_id n e pp sp)
    obtain t res where ad: "add_to_inventory s clk medicine_id n e pp sp = (t, res)"
      by (cases "add_to_inventory s clk medicine_id n e pp sp")
    from exact_add [OF Cons.prems(1,2), of clk medicine_id n e pp sp] ad
    have t: "distinct (map i_id (inventory t))" "\<forall>lot\<in>set (inventory t). int64 (i_quantity lot)"
      by simp_all
    from ad obtain cr where st: "step (s, created, rounded) (clk, op) = (t, cr, rounded)"
      unfolding AddLot by (cases res) simp_all
    from Cons.IH [OF t rest, of cr rounded] st a show ?thesis by simp
  next
    case (Sell inventory_id q c)
    from Cons.prems(3) a Sell have q: "0 \<le> q" by simp
    let ?t = "fst (sell_medicine s clk inventory_id q c)"
    from exact_sell [OF Cons.prems(1,2) q, of inventory_id clk c]
    have nr: "\<not> rounds s inventory_id q" and t: "distinct (map i_id (inventory ?t))"
      "\<forall>lot\<in>set (inventory ?t). int64 (i_quantity lot)"
      by simp_all
    from nr have st: "step (s, created, rounded) (clk, op) = (?t, created, rounded)"
      unfolding Sell by simp
    from Cons.IH [OF t rest, of created rounded] st a show ?thesis by simp
  qed
qed

lemma nonnegative_sales_exact:
  assumes "inventory s0 = []"
    and "\<forall>(clk, op)\<in>set ops. case op of Sell inventory_id q c \<Rightarrow> 0 \<le> q | _ \<Rightarrow> True"
  shows "snd (snd (run s0 ops)) = {}"
  unfolding run_def using assms by (intro nonnegative_sales_exact_foldl) simp_all

subsection \<open>What \<open>strptime\<close> accepts\<close>

lemma digit_val_le: "is_digit c \<Longrightarrow> digit_val c \<le> 9"
  by (auto simp: is_digit_def digit_val_def)

lemma digit_val_pos: "c \<in> set ''123456789'' \<Longrightarrow> 1 \<le> digit_val c \<and> digit_val c \<le> 9"
  by (auto simp: digit_val_def)

lemma match_Y_range: "match_Y t = Some y \<Longrightarrow> y \<le> 9999"
proof -
  assume a: "match_Y t = Some y"
  then obtain a b c d where t: "t = [a, b, c, d]"
    by (auto simp: match_Y_def split: list.splits)
  from a t have dg: "is_digit a" "is_digit b" "is_digit c" "is_digit d"
    and y: "y = 1000 * digit_val a + 100 * digit_val b + 10 * digit_val c + digit_val d"
    by (auto simp: match_Y_def split: if_splits)
  from dg digit_val_le have "digit_val a \<le> 9" "digit_val b \<le> 9" "digit_val c \<le> 9"
    "digit_val d \<le> 9" by blast+
  with y show ?thesis by linarith
qed

lemma match_m_range: "match_m t = Some m \<Longrightarrow> 1 \<le> m \<and> m \<le> 12"
proof -
  assume a: "match_m t = Some m"
  then consider a' where "t = [a']" | a' b' where "t = [a', b']"
    by (auto simp: match_m_def split: list.splits)
  then show ?thesis
  proof cases
    case 1
    with a have "a' \<in> set ''123456789''" and "m = digit_val a'"
      by (auto simp: match_m_def split: if_splits)
    with digit_val_pos [of a'] show ?thesis by simp
  next
    case 2
    with a have "(b' \<in> set ''012'' \<and> m = 10 + digit_val b')
        \<or> (b' \<in> set ''123456789'' \<and> m = digit_val b')"
      by (auto simp: match_m_def split: if_splits)
    then show ?thesis
    proof
      assume "b' \<in> set ''012'' \<and> m = 10 + digit_val b'"
      then show ?thesis by (auto simp: digit_val_def)
    next
      assume "b' \<in> set ''123456789'' \<and> m = digit_val b'"
      with digit_val_pos [of b'] show ?thesis by simp
    qed
  qed
qed

lemma match_d_range: "match_d t = Some d \<Longrightarrow> 1 \<le> d"
proof -
  assume a: "match_d t = Some d"
  then consider a' where "t = [a']" | a' b' where "t = [a', b']"
    by (auto simp: match_d_def split: list.splits)
  then show ?thesis
  proof cases
    case 1
    with a have "a' \<in> set ''123456789''" and "d = digit_val a'"
      by (auto simp: match_d_def split: if_splits)
    with digit_val_pos [of a'] show ?thesis by simp
  next
    case 2
    with a have "(b' \<in> set ''01'' \<and> d = 30 + digit_val b')
        \<or> (a' \<in> set ''12'' \<and> d = 10 * digit_val a' + digit_val b')
        \<or> (b' \<in> set ''123456789'' \<and> d = digit_val b')"
      by (auto simp: match_d_def split: if_splits)
    then show ?thesis
    proof (elim disjE)
      assume "b' \<in> set ''01'' \<and> d = 30 + digit_val b'"
      then show ?thesis by simp
    next
      assume "a' \<in> set ''12'' \<and> d = 10 * digit_val a' + digit_val b'"
      then show ?thesis by (auto simp: digit_val_def)
    next
      assume "b' \<in> set ''123456789'' \<and> d = digit_val b'"
      with digit_val_pos [of b'] show ?thesis by simp
    qed
  qed
qed

lemma strptime_calendar_date:
  assumes "strptime e = Some expiry"
  shows "\<exists>year month day. 1 \<le> year \<and> year \<le> 9999 \<and> 1 \<le> month \<and> month \<le> 12
           \<and> 1 \<le> day \<and> day \<le> days_in_month year month
           \<and> expiry = ymd2ord year month day"
proof -
  from assms obtain year where y: "match_Y (take 4 e) = Some year"
    by (auto simp: strptime_def split: option.splits)
  from assms y obtain sep rest where r: "drop 4 e = sep # rest"
    by (auto simp: strptime_def split: list.splits)
  from assms y r obtain month
    where m: "match_m (takeWhile (\<lambda>c. c \<noteq> CHR ''-'') rest) = Some month"
    by (auto simp: strptime_def split: if_splits option.splits list.splits)
  from assms y r m obtain day where d: "1 \<le> year" "day \<le> days_in_month year month"
    "expiry = ymd2ord year month day" and md: "\<exists>t. match_d t = Some day"
    by (auto simp: strptime_def split: if_splits option.splits list.splits)
  from md match_d_range have "1 \<le> day" by blast
  with d y m match_Y_range match_m_range show ?thesis by blast
qed


text \<open>
  The texts \<open>strptime\<close> accepts are exactly those made of a year, a month and a day
  that match, with \<open>-\<close> between them, and that name a day of the calendar.
\<close>

lemma match_Y_length: "match_Y t = Some y \<Longrightarrow> length t = 4"
  by (auto simp: match_Y_def split: list.splits if_splits)

lemma match_m_no_dash: "match_m t = Some m \<Longrightarrow> CHR ''-'' \<notin> set t"
  by (auto simp: match_m_def split: list.splits if_splits)

lemma takeWhile_until: "c \<notin> set xs \<Longrightarrow> takeWhile (\<lambda>x. x \<noteq> c) (xs @ c # ys) = xs"
  by (induction xs) auto

lemma dropWhile_until: "c \<notin> set xs \<Longrightarrow> dropWhile (\<lambda>x. x \<noteq> c) (xs @ c # ys) = c # ys"
  by (induction xs) auto

lemma strptime_text:
  "strptime e = Some expiry \<longleftrightarrow>
     (\<exists>yt mt dt year month day.
        e = yt @ ''-'' @ mt @ ''-'' @ dt
        \<and> match_Y yt = Some year \<and> match_m mt = Some month \<and> match_d dt = Some day
        \<and> 1 \<le> year \<and> day \<le> days_in_month year month
        \<and> expiry = ymd2ord year month day)"
proof
  assume a: "strptime e = Some expiry"
  then obtain year where y: "match_Y (take 4 e) = Some year"
    by (auto simp: strptime_def split: option.splits)
  from a y obtain rest where r: "drop 4 e = CHR ''-'' # rest"
    by (auto simp: strptime_def split: list.splits if_splits)
  from a y r obtain month day_text
    where m: "match_m (takeWhile (\<lambda>c. c \<noteq> CHR ''-'') rest) = Some month"
      and dw: "dropWhile (\<lambda>c. c \<noteq> CHR ''-'') rest = CHR ''-'' # day_text"
    by (auto simp: strptime_def split: option.splits list.splits
        dest: hd_dropWhile [of "\<lambda>c. c \<noteq> CHR ''-''" rest])
       (metis (mono_tags, lifting) hd_dropWhile list.distinct(1) list.sel(1))
  from a y r m dw obtain day where d: "match_d day_text = Some day"
    and v: "1 \<le> year" "day \<le> days_in_month year month" "expiry = ymd2ord year month day"
    by (auto simp: strptime_def split: option.splits if_splits)
  have "e = take 4 e @ drop 4 e" by simp
  also have "drop 4 e = ''-'' @ takeWhile (\<lambda>c. c \<noteq> CHR ''-'') rest
      @ dropWhile (\<lambda>c. c \<noteq> CHR ''-'') rest"
    by (simp add: r)
  finally have "e = take 4 e @ ''-'' @ takeWhile (\<lambda>c. c \<noteq> CHR ''-'') rest @ ''-'' @ day_text"
    by (simp add: dw)
  with y m d v show "\<exists>yt mt dt year month day.
        e = yt @ ''-'' @ mt @ ''-'' @ dt
        \<and> match_Y yt = Some year \<and> match_m mt = Some month \<and> match_d dt = Some day
        \<and> 1 \<le> year \<and> day \<le> days_in_month year month
        \<and> expiry = ymd2ord year month day"
    by blast
next
  assume "\<exists>yt mt dt year month day.
        e = yt @ ''-'' @ mt @ ''-'' @ dt
        \<and> match_Y yt = Some year \<and> match_m mt = Some month \<and> match_d dt = Some day
        \<and> 1 \<le> year \<and> day \<le> days_in_month year month
        \<and> expiry = ymd2ord year month day"
  then obtain yt mt dt year month day where e: "e = yt @ ''-'' @ mt @ ''-'' @ dt"
    and y: "match_Y yt = Some year" and m: "match_m mt = Some month"
    and d: "match_d dt = Some day" and v: "1 \<le> year" "day \<le> days_in_month year month"
    "expiry = ymd2ord year month day"
    by blast
  from y have l: "length yt = 4" by (rule match_Y_length)
  from m have nd: "CHR ''-'' \<notin> set mt" by (rule match_m_no_dash)
  from l have t: "take 4 e = yt" and dr: "drop 4 e = CHR ''-'' # (mt @ CHR ''-'' # dt)"
    by (simp_all add: e)
  from nd have tw: "takeWhile (\<lambda>c. c \<noteq> CHR ''-'') (mt @ CHR ''-'' # dt) = mt"
    by (rule takeWhile_until)
  from nd have dw: "dropWhile (\<lambda>c. c \<noteq> CHR ''-'') (mt @ CHR ''-'' # dt) = CHR ''-'' # dt"
    by (rule dropWhile_until)
  from v show "strptime e = Some expiry"
    by (simp add: strptime_def t dr tw dw y m d)
qed

subsection \<open>\<open>add_to_inventory\<close>\<close>

text \<open>
  C5 as the claim states it does not hold: \<open>add_to_inventory\<close> has no test of the sign of
  the quantity or of a price. For the medicine of the catalog and a good date, a negative
  quantity and negative prices are stored as they are.
\<close>

theorem add_to_inventory_unchecked_counterexample:
  "1 \<in> set (map m_id (medicines catalog))
   \<and> add_to_inventory catalog noon 1 (- 5) ''2099-01-01'' (- 2) (- 1) =
     (catalog\<lparr>inventory := [\<lparr>i_id = 1, i_medicine_id = 1, i_quantity = - 5,
         i_expiry_date = 766280, i_purchase_price = - 2, i_selling_price = - 1,
         i_purchase_date = 739924\<rparr>]\<rparr>, Inr 1)"
  by (simp add: add_to_inventory_def strptime_2099 Let_def today_noon next_rowid_def
      catalog_def paracetamol_def int64_def)

text \<open>
  C5, amended. \<open>add_to_inventory\<close> fails with \<open>ValueError\<close> (the kind \<open>InvalidInput\<close>),
  changing nothing, exactly when \<open>strptime\<close> does not accept \<open>expiryDate\<close>. What it
  accepts is exactly a text made of four digits, \<open>-\<close>, a month from 1 to 12 in one or two digits,
  \<open>-\<close>, and a day in one or two digits or in a space and a digit, that names a year from
  1 to 9999 and a day which that month of that year has. For an accepted date and a
  quantity that is not within 64 bits it raises \<open>OverflowError\<close>, changing nothing. For an
  accepted date, a quantity within 64 bits and a medicine of the catalog, whatever the
  signs of the quantity and the prices, it appends one new lot with the given values and
  the current date as \<open>purchase_date\<close>, and returns the lot's id, which no earlier lot
  has. (Nothing is said here of a \<open>medicineId\<close> that is not in the catalog.)
\<close>

theorem add_to_inventory_outcomes:
  "(strptime e = None \<longrightarrow>
      add_to_inventory s clk medicine_id n e pp sp = (s, Inl ValueError))
   \<and> (strptime e \<noteq> None \<longrightarrow>
      snd (add_to_inventory s clk medicine_id n e pp sp) \<noteq> Inl ValueError)
   \<and> (strptime e = Some expiry \<longleftrightarrow>
        (\<exists>yt mt dt year month day.
           e = yt @ ''-'' @ mt @ ''-'' @ dt
           \<and> match_Y yt = Some year \<and> match_m mt = Some month \<and> match_d dt = Some day
           \<and> 1 \<le> year \<and> year \<le> 9999 \<and> 1 \<le> month \<and> month \<le> 12
           \<and> 1 \<le> day \<and> day \<le> days_in_month year month
           \<and> expiry = ymd2ord year month day))
   \<and> (strptime e = Some expiry \<and> \<not> int64 n \<longrightarrow>
      add_to_inventory s clk medicine_id n e pp sp = (s, Inl OverflowError))
   \<and> (strptime e = Some expiry \<and> int64 n
        \<and> medicine_id \<in> set (map m_id (medicines s)) \<longrightarrow>
      (\<exists>lot. add_to_inventory s clk medicine_id n e pp sp
                = (s\<lparr>inventory := inventory s @ [lot]\<rparr>, Inr (i_id lot))
         \<and> i_id lot \<notin> set (map i_id (inventory s))
         \<and> i_medicine_id lot = medicine_id \<and> i_quantity lot = n
         \<and> i_expiry_date lot = expiry \<and> i_purchase_price lot = pp
         \<and> i_selling_price lot = sp \<and> i_purchase_date lot = today clk))"
proof (intro conjI impI iffI)
  assume "strptime e = None"
  then show "add_to_inventory s clk medicine_id n e pp sp = (s, Inl ValueError)"
    by (simp add: add_to_inventory_def)
next
  assume "strptime e \<noteq> None"
  then show "snd (add_to_inventory s clk medicine_id n e pp sp) \<noteq> Inl ValueError"
    by (auto simp: add_to_inventory_def Let_def split: if_splits)
next
  assume "\<exists>yt mt dt year month day.
           e = yt @ ''-'' @ mt @ ''-'' @ dt
           \<and> match_Y yt = Some year \<and> match_m mt = Some month \<and> match_d dt = Some day
           \<and> 1 \<le> year \<and> year \<le> 9999 \<and> 1 \<le> month \<and> month \<le> 12
           \<and> 1 \<le> day \<and> day \<le> days_in_month year month
           \<and> expiry = ymd2ord year month day"
  then show "strptime e = Some expiry"
    unfolding strptime_text by blast
next
  assume a: "strptime e = Some expiry"
  then obtain yt mt dt year month day where e: "e = yt @ ''-'' @ mt @ ''-'' @ dt"
    and y: "match_Y yt = Some year" and m: "match_m mt = Some month"
    and d: "match_d dt = Some day" and v: "1 \<le> year" "day \<le> days_in_month year month"
    "expiry = ymd2ord year month day"
    unfolding strptime_text by blast
  from y have "year \<le> 9999" by (rule match_Y_range)
  moreover from m have "1 \<le> month \<and> month \<le> 12" by (rule match_m_range)
  moreover from d have "1 \<le> day" by (rule match_d_range)
  ultimately show "\<exists>yt mt dt year month day.
           e = yt @ ''-'' @ mt @ ''-'' @ dt
           \<and> match_Y yt = Some year \<and> match_m mt = Some month \<and> match_d dt = Some day
           \<and> 1 \<le> year \<and> year \<le> 9999 \<and> 1 \<le> month \<and> month \<le> 12
           \<and> 1 \<le> day \<and> day \<le> days_in_month year month
           \<and> expiry = ymd2ord year month day"
    using e y m d v by blast
next
  assume "strptime e = Some expiry \<and> \<not> int64 n"
  then show "add_to_inventory s clk medicine_id n e pp sp = (s, Inl OverflowError)"
    by (simp add: add_to_inventory_def)
next
  assume a: "strptime e = Some expiry \<and> int64 n
        \<and> medicine_id \<in> set (map m_id (medicines s))"
  let ?lot = "\<lparr>i_id = next_rowid (map i_id (inventory s)), i_medicine_id = medicine_id,
                 i_quantity = n, i_expiry_date = expiry, i_purchase_price = pp,
                 i_selling_price = sp, i_purchase_date = today clk\<rparr>"
  from a have "add_to_inventory s clk medicine_id n e pp sp
                = (s\<lparr>inventory := inventory s @ [?lot]\<rparr>, Inr (i_id ?lot))"
    by (simp add: add_to_inventory_def Let_def)
  moreover have "i_id ?lot \<notin> set (map i_id (inventory s))"
    using next_rowid_fresh [of "map i_id (inventory s)"] by simp
  ultimately show "\<exists>lot. add_to_inventory s clk medicine_id n e pp sp
                = (s\<lparr>inventory := inventory s @ [lot]\<rparr>, Inr (i_id lot))
         \<and> i_id lot \<notin> set (map i_id (inventory s))
         \<and> i_medicine_id lot = medicine_id \<and> i_quantity lot = n
         \<and> i_expiry_date lot = expiry \<and> i_purchase_price lot = pp
         \<and> i_selling_price lot = sp \<and> i_purchase_date lot = today clk"
    by (intro exI [of _ ?lot]) simp
qed

text \<open>
  30 February is refused and so is a text with a letter; \<open>2099-1-1\<close>, without the
  zeros, is the same date as \<open>2099-01-01\<close>; a quantity of \<open>2 ^ 63\<close> cannot be bound; and
  a second lot of the medicine of \<open>lot1\<close>, with a negative quantity, is added as lot 2
  and not merged into lot 1.
\<close>

lemma strptime_examples:
  "strptime ''2099-02-30'' = None" "strptime ''2099-01-0x'' = None"
  "strptime ''2099-1-1'' = Some 766280"
  by (simp_all add: strptime_def match_Y_def match_m_def match_d_def is_digit_def
      digit_val_def days_in_month_def ymd2ord_def days_before_year_def days_before_month_def
      is_leap_def)

theorem add_to_inventory_outcomes_witness:
  "strptime ''2099-02-30'' = None
   \<and> add_to_inventory shop noon 1 100 ''2099-02-30'' 2 5 = (shop, Inl ValueError)
   \<and> strptime ''2099-01-0x'' = None
   \<and> add_to_inventory shop noon 1 100 ''2099-01-0x'' 2 5 = (shop, Inl ValueError)
   \<and> strptime ''2099-1-1'' = Some 766280 \<and> strptime ''2099-01-01'' = Some 766280
   \<and> \<not> int64 9223372036854775808
   \<and> add_to_inventory shop noon 1 9223372036854775808 ''2099-01-01'' 2 5
        = (shop, Inl OverflowError)
   \<and> int64 (- 5) \<and> 1 \<in> set (map m_id (medicines shop))
   \<and> length (inventory (fst (add_to_inventory shop noon 1 (- 5) ''2099-01-01'' 2 5))) = 2
   \<and> snd (add_to_inventory shop noon 1 (- 5) ''2099-01-01'' 2 5) = Inr 2"
proof -
  note o1 = add_to_inventory_outcomes [of "''2099-02-30''" shop noon 1 100 2 5 0]
  note o2 = add_to_inventory_outcomes [of "''2099-01-0x''" shop noon 1 100 2 5 0]
  note o3 = add_to_inventory_outcomes [of "''2099-01-01''" shop noon 1
      9223372036854775808 2 5 766280]
  note o4 = add_to_inventory_outcomes [of "''2099-01-01''" shop noon 1 "- 5" 2 5 766280]
  have k1: "1 \<in> set (map m_id (medicines shop))"
    by (simp add: shop_def paracetamol_def)
  have n1: "\<not> int64 9223372036854775808" and n2: "int64 (- 5)"
    by (simp_all add: int64_def)
  from o1 strptime_examples(1)
  have a: "add_to_inventory shop noon 1 100 ''2099-02-30'' 2 5 = (shop, Inl ValueError)"
    by blast
  from o2 strptime_examples(2)
  have b: "add_to_inventory shop noon 1 100 ''2099-01-0x'' 2 5 = (shop, Inl ValueError)"
    by blast
  from o3 strptime_2099 n1
  have c: "add_to_inventory shop noon 1 9223372036854775808 ''2099-01-01'' 2 5
        = (shop, Inl OverflowError)"
    by blast
  from o4 strptime_2099 n2 k1
  obtain lot where d: "add_to_inventory shop noon 1 (- 5) ''2099-01-01'' 2 5
        = (shop\<lparr>inventory := inventory shop @ [lot]\<rparr>, Inr (i_id lot))"
    by blast
  have e: "snd (add_to_inventory shop noon 1 (- 5) ''2099-01-01'' 2 5) = Inr 2"
    by (simp add: add_to_inventory_def strptime_2099 Let_def next_rowid_def shop_def lot1_def
        int64_def)
  from d have l: "length (inventory (fst (add_to_inventory shop noon 1 (- 5) ''2099-01-01'' 2 5)))
      = 2"
    by (simp add: shop_def)
  from a b c e l k1 n1 n2 strptime_examples strptime_2099 show ?thesis by (intro conjI)
qed

subsection \<open>\<open>get_inventory\<close>\<close>

lemma get_inventory_mset:
  "mset (get_inventory s clk (Some t)) =
     mset [inventory_item_of clk t i m.
             i \<leftarrow> inventory s, m \<leftarrow> medicines s, i_medicine_id i = m_id m, 0 < i_quantity i]"
  by (simp add: get_inventory_def)

lemma get_inventory_sorted: "sorted (map v_expiry_date (get_inventory s clk threshold))"
  by (simp add: get_inventory_def Let_def)

lemma inventory_item_of_fields:
  "inventory_item_of clk t i m =
     \<lparr>v_id = i_id i, v_name = m_name m, v_quantity = i_quantity i,
      v_expiry_date = i_expiry_date i, v_purchase_price = i_purchase_price i,
      v_selling_price = i_selling_price i,
      v_status = (if i_quantity i \<le> t then ''LOW''
                  else if i_expiry_date i < today clk + 30 then ''NEAR_EXPIRY'' else ''OK'')\<rparr>"
  by (simp add: inventory_item_of_def status_def)

text \<open>
  C6. For every database, clock and threshold, \<open>get_inventory\<close> returns one row for
  every lot with \<open>quantity > 0\<close> and every medicine with the lot's \<open>medicine_id\<close>, and no
  other row. The row shows the lot with the status \<open>LOW\<close> when its quantity is at most the
  threshold, whatever the expiry date; above the threshold the status is \<open>NEAR_EXPIRY\<close>
  exactly when the expiry date is before today + 30 days, and \<open>OK\<close> exactly when it is
  not. The rows are in ascending order of \<open>expiry_date\<close>, and a call without threshold is
  a call with threshold 10.
\<close>

theorem get_inventory_rows:
  "mset (get_inventory s clk (Some t)) =
     mset [\<lparr>v_id = i_id i, v_name = m_name m, v_quantity = i_quantity i,
             v_expiry_date = i_expiry_date i, v_purchase_price = i_purchase_price i,
             v_selling_price = i_selling_price i,
             v_status = (if i_quantity i \<le> t then ''LOW''
                         else if i_expiry_date i < today clk + 30 then ''NEAR_EXPIRY''
                         else ''OK'')\<rparr>.
           i \<leftarrow> inventory s, m \<leftarrow> medicines s, i_medicine_id i = m_id m, 0 < i_quantity i]
   \<and> (\<forall>r\<in>set (get_inventory s clk (Some t)).
        0 < v_quantity r
        \<and> (v_quantity r \<le> t \<longrightarrow> v_status r = ''LOW'')
        \<and> (t < v_quantity r \<longrightarrow>
             (v_status r = ''NEAR_EXPIRY'' \<longleftrightarrow> v_expiry_date r < today clk + 30)
           \<and> (v_status r = ''OK'' \<longleftrightarrow> today clk + 30 \<le> v_expiry_date r)))
   \<and> sorted (map v_expiry_date (get_inventory s clk (Some t)))
   \<and> get_inventory s clk None = get_inventory s clk (Some 10)"
proof (intro conjI ballI)
  show "mset (get_inventory s clk (Some t)) =
     mset [\<lparr>v_id = i_id i, v_name = m_name m, v_quantity = i_quantity i,
             v_expiry_date = i_expiry_date i, v_purchase_price = i_purchase_price i,
             v_selling_price = i_selling_price i,
             v_status = (if i_quantity i \<le> t then ''LOW''
                         else if i_expiry_date i < today clk + 30 then ''NEAR_EXPIRY''
                         else ''OK'')\<rparr>.
           i \<leftarrow> inventory s, m \<leftarrow> medicines s, i_medicine_id i = m_id m, 0 < i_quantity i]"
    unfolding get_inventory_mset inventory_item_of_fields ..
next
  fix r assume "r \<in> set (get_inventory s clk (Some t))"
  then have "r \<in># mset (get_inventory s clk (Some t))" by simp
  then have "r \<in> set [inventory_item_of clk t i m.
             i \<leftarrow> inventory s, m \<leftarrow> medicines s, i_medicine_id i = m_id m, 0 < i_quantity i]"
    unfolding get_inventory_mset by simp
  then obtain i m where q: "0 < i_quantity i" and r: "r = inventory_item_of clk t i m"
    by (auto split: if_splits)
  from r have f: "v_quantity r = i_quantity i" "v_expiry_date r = i_expiry_date i"
    "v_status r = (if i_quantity i \<le> t then ''LOW''
                  else if i_expiry_date i < today clk + 30 then ''NEAR_EXPIRY'' else ''OK'')"
    by (simp_all add: inventory_item_of_fields)
  from q f show "0 < v_quantity r" by simp
  from f show "v_quantity r \<le> t \<longrightarrow> v_status r = ''LOW''" by simp
  from f show "t < v_quantity r \<longrightarrow>
             (v_status r = ''NEAR_EXPIRY'' \<longleftrightarrow> v_expiry_date r < today clk + 30)
           \<and> (v_status r = ''OK'' \<longleftrightarrow> today clk + 30 \<le> v_expiry_date r)"
    by simp
next
  show "sorted (map v_expiry_date (get_inventory s clk (Some t)))"
    by (rule get_inventory_sorted)
next
  show "get_inventory s clk None = get_inventory s clk (Some 10)"
    by (simp add: get_inventory_def)
qed

lemma get_inventory_stock:
  "get_inventory stock noon None =
     [\<lparr>v_id = 2, v_name = ''Paracetamol'', v_quantity = 5, v_expiry_date = 739930,
        v_purchase_price = 1, v_selling_price = 2, v_status = ''LOW''\<rparr>,
      \<lparr>v_id = 3, v_name = ''Paracetamol'', v_quantity = 50, v_expiry_date = 739934,
        v_purchase_price = 1, v_selling_price = 2, v_status = ''NEAR_EXPIRY''\<rparr>,
      \<lparr>v_id = 5, v_name = ''Paracetamol'', v_quantity = 40, v_expiry_date = 739954,
        v_purchase_price = 1, v_selling_price = 2, v_status = ''OK''\<rparr>,
      \<lparr>v_id = 6, v_name = ''Paracetamol'', v_quantity = 40, v_expiry_date = 739955,
        v_purchase_price = 1, v_selling_price = 2, v_status = ''OK''\<rparr>,
      \<lparr>v_id = 1, v_name = ''Paracetamol'', v_quantity = 100, v_expiry_date = 766280,
        v_purchase_price = 2, v_selling_price = 5, v_status = ''OK''\<rparr>]"
  by (simp add: get_inventory_def stock_def paracetamol_def lot1_def lot2_def lot3_def
      lot4_def lot5_def lot6_def lot7_def inventory_item_of_def status_def today_noon)

lemma get_inventory_stock_45:
  "map (\<lambda>r. (v_id r, v_quantity r, v_expiry_date r, v_status r))
       (get_inventory stock noon (Some 45))
     = [(2, 5, 739930, ''LOW''), (3, 50, 739934, ''NEAR_EXPIRY''), (5, 40, 739954, ''LOW''),
        (6, 40, 739955, ''LOW''), (1, 100, 766280, ''OK'')]"
  by (simp add: get_inventory_def stock_def paracetamol_def lot1_def lot2_def lot3_def
      lot4_def lot5_def lot6_def lot7_def inventory_item_of_def status_def today_noon)

text \<open>
  The stock at noon, with the thresholds 10 and 45: lot 4, which is sold out, is not
  listed; lot 2, low and near its expiry, is \<open>LOW\<close>.
\<close>

theorem get_inventory_rows_witness:
  "map (\<lambda>r. (v_id r, v_quantity r, v_expiry_date r, v_status r))
       (get_inventory stock noon (Some 10))
     = [(2, 5, 739930, ''LOW''), (3, 50, 739934, ''NEAR_EXPIRY''), (5, 40, 739954, ''OK''),
        (6, 40, 739955, ''OK''), (1, 100, 766280, ''OK'')]
   \<and> map (\<lambda>r. (v_id r, v_quantity r, v_expiry_date r, v_status r))
       (get_inventory stock noon (Some 45))
     = [(2, 5, 739930, ''LOW''), (3, 50, 739934, ''NEAR_EXPIRY''), (5, 40, 739954, ''LOW''),
        (6, 40, 739955, ''LOW''), (1, 100, 766280, ''OK'')]
   \<and> today noon + 30 = 739954
   \<and> sorted (map v_expiry_date (get_inventory stock noon (Some 10)))
   \<and> get_inventory stock noon None = get_inventory stock noon (Some 10)"
proof -
  note t = get_inventory_rows [of stock noon 10]
  from t have d: "get_inventory stock noon None = get_inventory stock noon (Some 10)"
    and s: "sorted (map v_expiry_date (get_inventory stock noon (Some 10)))"
    by blast+
  from get_inventory_stock have "get_inventory stock noon (Some 10) =
     [\<lparr>v_id = 2, v_name = ''Paracetamol'', v_quantity = 5, v_expiry_date = 739930,
        v_purchase_price = 1, v_selling_price = 2, v_status = ''LOW''\<rparr>,
      \<lparr>v_id = 3, v_name = ''Paracetamol'', v_quantity = 50, v_expiry_date = 739934,
        v_purchase_price = 1, v_selling_price = 2, v_status = ''NEAR_EXPIRY''\<rparr>,
      \<lparr>v_id = 5, v_name = ''Paracetamol'', v_quantity = 40, v_expiry_date = 739954,
        v_purchase_price = 1, v_selling_price = 2, v_status = ''OK''\<rparr>,
      \<lparr>v_id = 6, v_name = ''Paracetamol'', v_quantity = 40, v_expiry_date = 739955,
        v_purchase_price = 1, v_selling_price = 2, v_status = ''OK''\<rparr>,
      \<lparr>v_id = 1, v_name = ''Paracetamol'', v_quantity = 100, v_expiry_date = 766280,
        v_purchase_price = 2, v_selling_price = 5, v_status = ''OK''\<rparr>]"
    unfolding d .
  then have "map (\<lambda>r. (v_id r, v_quantity r, v_expiry_date r, v_status r))
       (get_inventory stock noon (Some 10))
     = [(2, 5, 739930, ''LOW''), (3, 50, 739934, ''NEAR_EXPIRY''), (5, 40, 739954, ''OK''),
        (6, 40, 739955, ''OK''), (1, 100, 766280, ''OK'')]"
    by simp
  with d s today_noon get_inventory_stock_45 show ?thesis by simp
qed

subsection \<open>Joins in a database whose keys hold\<close>

lemma concat_no_key:
  "k \<notin> set (map key xs) \<Longrightarrow> concat (map (\<lambda>x. if k = key x then g x else []) xs) = []"
  by (induction xs) auto

lemma concat_one_key:
  "distinct (map key xs) \<Longrightarrow> k \<in> set (map key xs) \<Longrightarrow>
     concat (map (\<lambda>x. if k = key x then g x else []) xs)
       = g (the (find (\<lambda>x. key x = k) xs))"
proof (induction xs)
  case Nil
  then show ?case by simp
next
  case (Cons x xs)
  show ?case
  proof (cases "k = key x")
    case True
    with Cons.prems(1) have "k \<notin> set (map key xs)" by simp
    then have "concat (map (\<lambda>x. if k = key x then g x else []) xs) = []"
      by (rule concat_no_key)
    with True show ?thesis by simp
  next
    case False
    with Cons.prems have "distinct (map key xs)" and "k \<in> set (map key xs)" by auto
    then have "concat (map (\<lambda>x. if k = key x then g x else []) xs)
       = g (the (find (\<lambda>x. key x = k) xs))"
      by (rule Cons.IH)
    with False show ?thesis by auto
  qed
qed

lemma concat_filter_map:
  "concat (map (\<lambda>x. if P x then [h x] else []) xs) = map h (filter P xs)"
  by (induction xs) auto

lemma find_key_in:
  "k \<in> set (map key xs) \<Longrightarrow> the (find (\<lambda>x. key x = k) xs) \<in> set xs"
  by (induction xs) auto

lemma join_lot_medicine:
  assumes "distinct (map m_id (medicines s))"
    and "\<forall>i\<in>set (inventory s). i_medicine_id i \<in> set (map m_id (medicines s))"
  shows "[f i m. i \<leftarrow> inventory s, m \<leftarrow> medicines s, i_medicine_id i = m_id m, P i]
           = map (\<lambda>i. f i (medicine_of s i)) (filter P (inventory s))"
proof -
  have "concat (map (\<lambda>m. if i_medicine_id i = m_id m then (if P i then [f i m] else []) else [])
                  (medicines s))
        = (if P i then [f i (medicine_of s i)] else [])" if "i \<in> set (inventory s)" for i
    using concat_one_key [OF assms(1), of "i_medicine_id i"
        "\<lambda>m. if P i then [f i m] else []"] assms(2) that
    by (simp add: medicine_of_def)
  then have "[f i m. i \<leftarrow> inventory s, m \<leftarrow> medicines s, i_medicine_id i = m_id m, P i]
      = concat (map (\<lambda>i. if P i then [f i (medicine_of s i)] else []) (inventory s))"
    by (simp cong: map_cong)
  then show ?thesis by (simp only: concat_filter_map)
qed

lemma join_sale_lot_medicine:
  assumes "keys_hold s"
  shows "[f x i m. x \<leftarrow> sales s, i \<leftarrow> inventory s, s_inventory_id x = i_id i,
                   m \<leftarrow> medicines s, i_medicine_id i = m_id m, P x]
           = map (\<lambda>x. f x (lot_of s x) (medicine_of s (lot_of s x))) (filter P (sales s))"
proof -
  from assms have dm: "distinct (map m_id (medicines s))"
    and di: "distinct (map i_id (inventory s))"
    and fm: "\<forall>i\<in>set (inventory s). i_medicine_id i \<in> set (map m_id (medicines s))"
    and fi: "\<forall>x\<in>set (sales s). s_inventory_id x \<in> set (map i_id (inventory s))"
    by (simp_all add: keys_hold_def)
  have med: "concat (map (\<lambda>m. if i_medicine_id i = m_id m
                               then (if P x then [f x i m] else []) else []) (medicines s))
        = (if P x then [f x i (medicine_of s i)] else [])" if "i \<in> set (inventory s)" for i x
    using concat_one_key [OF dm, of "i_medicine_id i" "\<lambda>m. if P x then [f x i m] else []"]
      fm that
    by (simp add: medicine_of_def)
  have lot: "concat (map (\<lambda>i. if s_inventory_id x = i_id i
                then concat (map (\<lambda>m. if i_medicine_id i = m_id m
                               then (if P x then [f x i m] else []) else []) (medicines s))
                else []) (inventory s))
        = (if P x then [f x (lot_of s x) (medicine_of s (lot_of s x))] else [])"
    if x: "x \<in> set (sales s)" for x
  proof -
    have "concat (map (\<lambda>i. if s_inventory_id x = i_id i
                then concat (map (\<lambda>m. if i_medicine_id i = m_id m
                               then (if P x then [f x i m] else []) else []) (medicines s))
                else []) (inventory s))
      = concat (map (\<lambda>i. if s_inventory_id x = i_id i
                then (if P x then [f x i (medicine_of s i)] else [])
                else []) (inventory s))"
      by (intro arg_cong [where f = concat] map_cong refl) (simp add: med)
    also have "\<dots> = (if P x then [f x (lot_of s x) (medicine_of s (lot_of s x))] else [])"
      using concat_one_key [OF di, of "s_inventory_id x"
          "\<lambda>i. if P x then [f x i (medicine_of s i)] else []"] fi x
      by (simp add: lot_of_def)
    finally show ?thesis .
  qed
  have "[f x i m. x \<leftarrow> sales s, i \<leftarrow> inventory s, s_inventory_id x = i_id i,
                   m \<leftarrow> medicines s, i_medicine_id i = m_id m, P x]
      = concat (map (\<lambda>x. if P x then [f x (lot_of s x) (medicine_of s (lot_of s x))] else [])
                  (sales s))"
    using lot by (simp cong: map_cong)
  then show ?thesis by (simp only: concat_filter_map)
qed

text \<open>
  Where the medicines have distinct ids and every lot names a medicine of the catalog,
  the rows of \<open>get_inventory\<close> are the lots with \<open>quantity > 0\<close>, one row for each.
\<close>

lemma get_inventory_lots:
  assumes "distinct (map m_id (medicines s))"
    and "\<forall>i\<in>set (inventory s). i_medicine_id i \<in> set (map m_id (medicines s))"
  shows "mset (get_inventory s clk (Some t)) =
           mset (map (\<lambda>i. inventory_item_of clk t i (medicine_of s i))
                  (filter (\<lambda>i. 0 < i_quantity i) (inventory s)))"
  unfolding get_inventory_mset
  using join_lot_medicine [OF assms, where f = "inventory_item_of clk t"
      and P = "\<lambda>i. 0 < i_quantity i"]
  by (simp only:)

subsection \<open>\<open>get_sales_report\<close>\<close>

lemma date_filter_values:
  "date_filter clk ''daily'' = Some (today clk)"
  "date_filter clk ''weekly'' = Some (today clk - 7)"
  "date_filter clk ''monthly'' = Some (start_of_month clk)"
  by (simp_all add: date_filter_def)

lemma date_filter_other:
  "period \<notin> {''daily'', ''weekly'', ''monthly''} \<Longrightarrow> date_filter clk period = None"
  by (simp add: date_filter_def)

lemma descending_stable:
  fixes k :: "'a \<Rightarrow> int \<times> nat"
  shows "sorted_wrt (\<lambda>a b. fst (k b) < fst (k a) \<or> (fst (k b) = fst (k a) \<and> snd (k b) \<le> snd (k a)))
           (rev (sort_key k (rev xs)))"
    and "filter (\<lambda>a. k a = v) (rev (sort_key k (rev xs))) = filter (\<lambda>a. k a = v) xs"
    and "mset (rev (sort_key k (rev xs))) = mset xs"
proof -
  have "sorted (map k (sort_key k (rev xs)))" by (rule sorted_sort_key)
  then have "sorted_wrt (\<lambda>a b. k a \<le> k b) (sort_key k (rev xs))"
    by (simp add: sorted_wrt_map)
  then have "sorted_wrt (\<lambda>a b. k b \<le> k a) (rev (sort_key k (rev xs)))"
    by (simp add: sorted_wrt_rev)
  then show "sorted_wrt (\<lambda>a b. fst (k b) < fst (k a)
      \<or> (fst (k b) = fst (k a) \<and> snd (k b) \<le> snd (k a))) (rev (sort_key k (rev xs)))"
    by (rule sorted_wrt_mono_rel [rotated]) (auto simp: less_eq_prod_def)
  have "filter (\<lambda>a. k a = v) (sort_key k (rev xs)) = filter (\<lambda>a. k a = v) (rev xs)"
    by (rule sort_key_stable)
  then show "filter (\<lambda>a. k a = v) (rev (sort_key k (rev xs))) = filter (\<lambda>a. k a = v) xs"
    by (simp add: rev_filter [symmetric])
  show "mset (rev (sort_key k (rev xs))) = mset xs" by simp
qed

text \<open>
  In a database whose primary and foreign keys hold, the report is made of exactly the
  sales of the period, one line for each: the sales whose \<open>sale_date\<close> is not before
  today for \<open>daily\<close>, today - 7 days for \<open>weekly\<close>, the first day of the current month
  for \<open>monthly\<close>. The lines are in descending order of \<open>sale_date\<close> and, within a date,
  of \<open>sale_time\<close>; lines of the same date and time are in the order of the sales. Any
  other period gives the empty list, in every database.
\<close>

lemma get_sales_report_lines:
  assumes "keys_hold s"
    and "(period = ''daily'' \<and> since = today clk) \<or> (period = ''weekly'' \<and> since = today clk - 7)
      \<or> (period = ''monthly'' \<and> since = start_of_month clk)"
  shows "mset (get_sales_report s clk period) =
           mset (map (\<lambda>x. sales_line_of x (lot_of s x) (medicine_of s (lot_of s x)))
                  (filter (\<lambda>x. since \<le> s_sale_date x) (sales s)))"
    and "sorted_wrt (\<lambda>a b. r_sale_date b < r_sale_date a
                    \<or> (r_sale_date b = r_sale_date a \<and> r_sale_time b \<le> r_sale_time a))
           (get_sales_report s clk period)"
    and "filter (\<lambda>r. (r_sale_date r, r_sale_time r) = v) (get_sales_report s clk period) =
           filter (\<lambda>r. (r_sale_date r, r_sale_time r) = v)
             (map (\<lambda>x. sales_line_of x (lot_of s x) (medicine_of s (lot_of s x)))
                (filter (\<lambda>x. since \<le> s_sale_date x) (sales s)))"
proof -
  from assms(2) have f: "date_filter clk period = Some since"
    using date_filter_values [of clk] by auto
  have r: "get_sales_report s clk period =
      rev (sort_key (\<lambda>r. (r_sale_date r, r_sale_time r))
        (rev (map (\<lambda>x. sales_line_of x (lot_of s x) (medicine_of s (lot_of s x)))
                (filter (\<lambda>x. since \<le> s_sale_date x) (sales s)))))"
    unfolding get_sales_report_def f option.case
    using join_sale_lot_medicine [OF assms(1), where f = sales_line_of and P = "\<lambda>x. since \<le> s_sale_date x"]
    by (simp only:)
  show "mset (get_sales_report s clk period) =
           mset (map (\<lambda>x. sales_line_of x (lot_of s x) (medicine_of s (lot_of s x)))
                  (filter (\<lambda>x. since \<le> s_sale_date x) (sales s)))"
    unfolding r by (rule descending_stable(3))
  show "sorted_wrt (\<lambda>a b. r_sale_date b < r_sale_date a
                    \<or> (r_sale_date b = r_sale_date a \<and> r_sale_time b \<le> r_sale_time a))
           (get_sales_report s clk period)"
    unfolding r
    using descending_stable(1) [of "\<lambda>r. (r_sale_date r, r_sale_time r)"] by simp
  show "filter (\<lambda>r. (r_sale_date r, r_sale_time r) = v) (get_sales_report s clk period) =
           filter (\<lambda>r. (r_sale_date r, r_sale_time r) = v)
             (map (\<lambda>x. sales_line_of x (lot_of s x) (medicine_of s (lot_of s x)))
                (filter (\<lambda>x. since \<le> s_sale_date x) (sales s)))"
    unfolding r by (rule descending_stable(2))
qed

lemma get_sales_report_other:
  "period \<notin> {''daily'', ''weekly'', ''monthly''} \<Longrightarrow> get_sales_report s clk period = []"
  by (simp add: get_sales_report_def date_filter_other)

lemma start_of_month_noon: "start_of_month noon = 739921"
  by (simp add: start_of_month_def noon_def ymd2ord_def days_before_year_def
      days_before_month_def is_leap_def)

lemma get_sales_report_books:
  "map (\<lambda>r. (r_sale_date r, r_sale_time r)) (get_sales_report books noon ''daily'')
     = [(739924, 43200), (739924, 3600)]"
  "map (\<lambda>r. (r_sale_date r, r_sale_time r)) (get_sales_report books noon ''weekly'')
     = [(739924, 43200), (739924, 3600), (739921, 100), (739920, 100), (739917, 100)]"
  "map (\<lambda>r. (r_sale_date r, r_sale_time r)) (get_sales_report books noon ''monthly'')
     = [(739924, 43200), (739924, 3600), (739921, 100)]"
  "get_sales_report books noon ''bogus'' = []"
  by (simp_all add: get_sales_report_def date_filter_def today_noon start_of_month_noon
      books_def shop_def lot1_def paracetamol_def sale_on_def sales_line_of_def)

text \<open>
  C7. The claim says that the report has exactly the sales of the period. The code does
  not keep to it, through the foreign key that \<open>create_tables\<close> declares and the
  connection never enforces: \<open>add_to_inventory\<close> stores a lot for the medicine 999, which
  the catalog does not have, \<open>sell_medicine\<close> sells from it, and the sale, dated today, is
  not in the daily report, because the report joins the sale with the lot's medicine.
\<close>

theorem get_sales_report_orphan_sale:
  "999 \<notin> set (map m_id (medicines catalog))
   \<and> add_to_inventory catalog noon 999 10 ''2026-11-05'' 2 5
     = (catalog\<lparr>inventory := [orphan_lot]\<rparr>, Inr 1)
   \<and> sell_medicine (catalog\<lparr>inventory := [orphan_lot]\<rparr>) noon 1 1 ''Bob''
     = (catalog\<lparr>sales := [orphan_sale], inventory := [orphan_lot\<lparr>i_quantity := 9\<rparr>]\<rparr>,
        Sold 1 ''Bob'' 5)
   \<and> s_sale_date orphan_sale = today noon
   \<and> get_sales_report
        (catalog\<lparr>sales := [orphan_sale], inventory := [orphan_lot\<lparr>i_quantity := 9\<rparr>]\<rparr>)
        noon ''daily'' = []"
proof -
  have p: "strptime ''2026-11-05'' = Some 739925"
    by (simp add: strptime_def match_Y_def match_m_def match_d_def is_digit_def digit_val_def
        days_in_month_def ymd2ord_def days_before_year_def days_before_month_def is_leap_def)
  have k: "999 \<notin> set (map m_id (medicines catalog))"
    by (simp add: catalog_def paracetamol_def)
  have a: "add_to_inventory catalog noon 999 10 ''2026-11-05'' 2 5
     = (catalog\<lparr>inventory := [orphan_lot]\<rparr>, Inr 1)"
    by (simp add: add_to_inventory_def p Let_def today_noon next_rowid_def catalog_def
        orphan_lot_def int64_def)
  have b: "sell_medicine (catalog\<lparr>inventory := [orphan_lot]\<rparr>) noon 1 1 ''Bob''
     = (catalog\<lparr>sales := [orphan_sale], inventory := [orphan_lot\<lparr>i_quantity := 9\<rparr>]\<rparr>,
        Sold 1 ''Bob'' 5)"
    by (simp add: sell_medicine_def catalog_def orphan_lot_def orphan_sale_def Let_def
        next_rowid_def today_noon sqlite_minus_def int64_def)
       (simp add: noon_def)
  have c: "s_sale_date orphan_sale = today noon"
    by (simp add: orphan_sale_def today_noon)
  have d: "get_sales_report
        (catalog\<lparr>sales := [orphan_sale], inventory := [orphan_lot\<lparr>i_quantity := 9\<rparr>]\<rparr>)
        noon ''daily'' = []"
    by (simp add: get_sales_report_def date_filter_def catalog_def orphan_lot_def
        paracetamol_def)
  from k a b c d show ?thesis by (intro conjI)
qed


subsection \<open>\<open>get_expiring_medicines\<close>\<close>

lemma cast_integer_days_whole:
  assumes "0 \<le> k" and "r < 86400000"
  shows "cast_integer_days (k * 86400000 - int r) =
           (if r = 0 \<or> k = 0 then k else k - 1)"
proof (cases "r = 0")
  case True
  with assms(1) show ?thesis by (simp add: cast_integer_days_def)
next
  case False
  show ?thesis
  proof (cases "k = 0")
    case True
    with False assms(2) show ?thesis by (simp add: cast_integer_days_def)
  next
    case k: False
    with assms(1) have k1: "1 \<le> k" by simp
    have eq: "k * 86400000 - int r = 86400000 * (k - 1) + (86400000 - int r)"
      by (simp add: algebra_simps)
    from False assms(2) have "0 \<le> 86400000 - int r" and "86400000 - int r < 86400000"
      by simp_all
    with eq have d: "(k * 86400000 - int r) div 86400000 = k - 1"
      by (rule int_div_pos_eq)
    from k1 assms(2) have "0 \<le> k * 86400000 - int r" by linarith
    with d False k show ?thesis by (simp add: cast_integer_days_def)
  qed
qed

text \<open>
  The number \<open>days_remaining\<close> that the query computes is the difference of the two dates
  only at 00:00:00.000 UTC and for a lot that expires today; at any other time it is one
  day less.
\<close>

lemma days_remaining_value:
  assumes "utc_ms clk < 86400000" and "today clk \<le> expiry"
  shows "days_remaining clk expiry =
           (if utc_ms clk = 0 \<or> expiry = today clk then expiry - today clk
            else expiry - today clk - 1)"
proof -
  from assms(2) have "0 \<le> expiry - today clk" by simp
  from cast_integer_days_whole [OF this assms(1)] show ?thesis
    by (simp add: days_remaining_def)
qed

lemma get_expiring_medicines_sorted:
  "sorted (map e_expiry_date (get_expiring_medicines s clk days_arg))"
  by (simp add: get_expiring_medicines_def Let_def)

lemma get_expiring_medicines_default:
  "get_expiring_medicines s clk None = get_expiring_medicines s clk (Some 30)"
  by (simp add: get_expiring_medicines_def)

text \<open>
  Outside the dates that SQLite has, and for a negative argument, nothing is returned.
\<close>

lemma concat_map_empty: "concat (map (\<lambda>x. []) xs) = []"
  by (induction xs) simp_all

lemma get_expiring_medicines_no_date:
  assumes "d < 0 \<or> last_date < today clk + d"
  shows "get_expiring_medicines s clk (Some d) = []"
proof -
  from assms have "date_now_plus_days clk d = None"
    by (auto simp: date_now_plus_days_def)
  then have "between e (today clk) (date_now_plus_days clk d) = False" for e
    by (simp add: between_def)
  then show ?thesis
    by (simp add: get_expiring_medicines_def concat_map_empty cong: if_cong)
qed

lemma get_expiring_medicines_window:
  assumes "distinct (map m_id (medicines s))"
    and "\<forall>i\<in>set (inventory s). i_medicine_id i \<in> set (map m_id (medicines s))"
    and "today clk + d \<le> last_date"
  shows "get_expiring_medicines s clk (Some d) =
           sort_key e_expiry_date
             (map (\<lambda>i. expiring_item_of clk i (medicine_of s i))
                (filter (\<lambda>i. today clk \<le> i_expiry_date i \<and> i_expiry_date i \<le> today clk + d)
                   (inventory s)))"
proof (cases "0 \<le> d")
  case True
  with assms(3) have b: "between e (today clk) (date_now_plus_days clk d)
      = (today clk \<le> e \<and> e \<le> today clk + d)" for e
    by (simp add: between_def date_now_plus_days_def)
  show ?thesis
    unfolding get_expiring_medicines_def Let_def option.case b
    using join_lot_medicine [OF assms(1,2), where f = "expiring_item_of clk"
        and P = "\<lambda>i. today clk \<le> i_expiry_date i \<and> i_expiry_date i \<le> today clk + d"]
    by (simp only:)
next
  case False
  then have "get_expiring_medicines s clk (Some d) = []"
    by (simp add: get_expiring_medicines_no_date)
  moreover from False
  have "filter (\<lambda>i. today clk \<le> i_expiry_date i \<and> i_expiry_date i \<le> today clk + d)
          (inventory s) = []"
    by (auto simp: filter_empty_conv)
  ultimately show ?thesis by simp
qed

lemma get_expiring_medicines_stock:
  "get_expiring_medicines stock noon (Some 30) =
     [\<lparr>e_name = ''Paracetamol'', e_quantity = 0, e_expiry_date = 739925,
        e_days_remaining = 0\<rparr>,
      \<lparr>e_name = ''Paracetamol'', e_quantity = 5, e_expiry_date = 739930,
        e_days_remaining = 5\<rparr>,
      \<lparr>e_name = ''Paracetamol'', e_quantity = 50, e_expiry_date = 739934,
        e_days_remaining = 9\<rparr>,
      \<lparr>e_name = ''Paracetamol'', e_quantity = 40, e_expiry_date = 739954,
        e_days_remaining = 29\<rparr>]"
  by (simp add: get_expiring_medicines_def date_now_plus_days_def between_def stock_def
      paracetamol_def lot1_def lot2_def lot3_def lot4_def lot5_def lot6_def lot7_def
      expiring_item_of_def days_remaining_def cast_integer_days_def today_noon last_date_def)
     (simp add: noon_def)

text \<open>
  C8 as the claim states it does not hold for every \<open>d\<close>. SQLite has no date after
  9999-12-31: with \<open>d = 3000000\<close> the upper end of the window is \<open>NULL\<close>, no row passes
  \<open>BETWEEN\<close>, and the lot 4 of the catalog's medicine, which expires tomorrow, is not
  returned.
\<close>

theorem get_expiring_medicines_counterexample:
  "lot4 \<in> set (inventory shelves)
   \<and> i_medicine_id lot4 \<in> set (map m_id (medicines shelves))
   \<and> today noon \<le> i_expiry_date lot4 \<and> i_expiry_date lot4 \<le> today noon + 3000000
   \<and> get_expiring_medicines shelves noon (Some 3000000) = []"
proof -
  have "get_expiring_medicines shelves noon (Some 3000000) = []"
    by (rule get_expiring_medicines_no_date) (simp add: last_date_def today_noon)
  then show ?thesis
    by (simp add: shelves_def lot4_def paracetamol_def today_noon)
qed

text \<open>
  C8, amended. In a database in which the medicines have distinct ids and every lot
  names a medicine of the catalog, and for every \<open>d\<close> with today + \<open>d\<close> days not after
  9999-12-31, \<open>get_expiring_medicines(d)\<close> returns one row for each lot whose
  \<open>expiry_date\<close> lies in the window from today to today + \<open>d\<close> days, both ends included,
  and no other row; the row shows the name of the lot's medicine, the lot's quantity,
  whatever it is, and its expiry date. The rows are in ascending order of expiry date,
  and no argument means 30 days.
\<close>

theorem get_expiring_medicines_rows:
  assumes "distinct (map m_id (medicines s))"
    and "\<forall>i\<in>set (inventory s). i_medicine_id i \<in> set (map m_id (medicines s))"
    and "today clk + d \<le> last_date"
  shows "mset (map (\<lambda>r. (e_name r, e_quantity r, e_expiry_date r))
                 (get_expiring_medicines s clk (Some d)))
           = mset (map (\<lambda>i. (m_name (medicine_of s i), i_quantity i, i_expiry_date i))
                     (filter (\<lambda>i. today clk \<le> i_expiry_date i
                                  \<and> i_expiry_date i \<le> today clk + d) (inventory s)))
       \<and> sorted (map e_expiry_date (get_expiring_medicines s clk (Some d)))
       \<and> get_expiring_medicines s clk None = get_expiring_medicines s clk (Some 30)"
proof (intro conjI)
  show "mset (map (\<lambda>r. (e_name r, e_quantity r, e_expiry_date r))
                 (get_expiring_medicines s clk (Some d)))
           = mset (map (\<lambda>i. (m_name (medicine_of s i), i_quantity i, i_expiry_date i))
                     (filter (\<lambda>i. today clk \<le> i_expiry_date i
                                  \<and> i_expiry_date i \<le> today clk + d) (inventory s)))"
  proof -
    have "mset (map (\<lambda>r. (e_name r, e_quantity r, e_expiry_date r)) (sort_key e_expiry_date xs))
        = mset (map (\<lambda>r. (e_name r, e_quantity r, e_expiry_date r)) xs)" for xs
      by (simp only: mset_map mset_sort)
    then show ?thesis
      unfolding get_expiring_medicines_window [OF assms]
      by (simp add: expiring_item_of_def comp_def multiset.map_comp)
  qed
  show "sorted (map e_expiry_date (get_expiring_medicines s clk (Some d)))"
    by (rule get_expiring_medicines_sorted)
  show "get_expiring_medicines s clk None = get_expiring_medicines s clk (Some 30)"
    by (rule get_expiring_medicines_default)
qed

text \<open>
  At noon of day 739924 and with 30 days, the shelves give four rows: the sold-out lot 4
  and the lots 2, 3 and 5, the last of which expires in exactly 30 days; the lot 6, which
  expires in 31 days, and the lot 1 are not among them.
\<close>

theorem get_expiring_medicines_rows_witness:
  "mset (map (\<lambda>r. (e_name r, e_quantity r, e_expiry_date r))
           (get_expiring_medicines shelves noon (Some 30)))
     = mset [(''Paracetamol'', 5, 739930), (''Paracetamol'', 50, 739934),
             (''Paracetamol'', 0, 739925), (''Paracetamol'', 40, 739954)]
   \<and> sorted (map e_expiry_date (get_expiring_medicines shelves noon (Some 30)))
   \<and> get_expiring_medicines shelves noon None = get_expiring_medicines shelves noon (Some 30)"
proof -
  have a: "distinct (map m_id (medicines shelves))"
    by (simp add: shelves_def)
  have b: "\<forall>i\<in>set (inventory shelves). i_medicine_id i \<in> set (map m_id (medicines shelves))"
    by (simp add: shelves_def lot1_def lot2_def lot3_def lot4_def lot5_def lot6_def
        paracetamol_def)
  have c: "today noon + 30 \<le> last_date"
    by (simp add: today_noon last_date_def)
  have m: "map (\<lambda>i. (m_name (medicine_of shelves i), i_quantity i, i_expiry_date i))
             (filter (\<lambda>i. today noon \<le> i_expiry_date i \<and> i_expiry_date i \<le> today noon + 30)
                (inventory shelves))
      = [(''Paracetamol'', 5, 739930), (''Paracetamol'', 50, 739934),
         (''Paracetamol'', 0, 739925), (''Paracetamol'', 40, 739954)]"
    by (simp add: shelves_def lot1_def lot2_def lot3_def lot4_def lot5_def lot6_def
        paracetamol_def medicine_of_def today_noon)
  from get_expiring_medicines_rows [OF a b c] show ?thesis
    unfolding m .
qed


subsection \<open>\<open>load_medicine_data\<close>\<close>

text \<open>
  The load is skipped when the table has a row: a restart with a filled catalog inserts
  nothing.
\<close>

lemma load_medicine_data_filled:
  "medicines s \<noteq> [] \<Longrightarrow> load_medicine_data s json_file = Inr s"
  by (simp add: load_medicine_data_def)

text \<open>
  When every record has a name, every record is inserted, in the order of the file,
  whether or not a row of that name is already there.
\<close>

lemma insert_medicines_all:
  "\<forall>med\<in>set meds. \<exists>n. map_of med ''name'' = Some (Some n) \<Longrightarrow>
   \<exists>rows'. insert_medicines meds rows = Inr rows'
     \<and> map m_name rows' = map m_name rows @ map (\<lambda>med. the (the (map_of med ''name''))) meds"
proof (induction meds arbitrary: rows)
  case Nil
  show ?case by simp
next
  case (Cons med meds)
  from Cons.prems obtain n where n: "map_of med ''name'' = Some (Some n)" by auto
  from Cons.prems have "\<forall>med\<in>set meds. \<exists>n. map_of med ''name'' = Some (Some n)" by simp
  from Cons.IH [OF this, of "insert_or_ignore_medicine rows (Some n) med"]
  obtain rows' where r: "insert_medicines meds (insert_or_ignore_medicine rows (Some n) med)
      = Inr rows'"
    and m: "map m_name rows' = map m_name (insert_or_ignore_medicine rows (Some n) med)
      @ map (\<lambda>med. the (the (map_of med ''name''))) meds"
    by blast
  from r n have "insert_medicines (med # meds) rows = Inr rows'" by simp
  moreover from m n have "map m_name rows'
      = map m_name rows @ map (\<lambda>med. the (the (map_of med ''name''))) (med # meds)"
    by (simp add: insert_or_ignore_medicine_def)
  ultimately show ?case by blast
qed

text \<open>
  C9. The claim says that a record whose name a catalog row already has is skipped. The
  code does not do that: \<open>INSERT OR IGNORE\<close> skips a row only where a constraint of the
  table is violated, and \<open>medicines\<close> has no \<open>UNIQUE\<close> constraint on \<open>name\<close>. Loading two
  records named Aspirin into the empty catalog gives two rows named Aspirin.
\<close>

theorem load_medicine_data_same_name:
  "load_medicine_data empty_db (Some [aspirin_a, aspirin_b]) =
     Inr (empty_db\<lparr>medicines :=
       [\<lparr>m_id = 1, m_name = ''Aspirin'', m_generic_name = None, m_type = None,
          m_power = None, m_company = Some ''Acme'', m_price = None\<rparr>,
        \<lparr>m_id = 2, m_name = ''Aspirin'', m_generic_name = None, m_type = None,
          m_power = None, m_company = Some ''Bayer'', m_price = None\<rparr>]\<rparr>)"
  by (simp add: load_medicine_data_def empty_db_def aspirin_a_def aspirin_b_def
      insert_or_ignore_medicine_def dict_get_def next_rowid_def)

end
